theory Spec2Isabelle
  imports Complex_Main "HOL-Library.AList"
begin

section \<open>Shape/texture bias evaluation: decisions, totals and triplet similarities\<close>

text \<open>
  A shallow embedding of \<^verbatim>\<open>main.py\<close>. Python floats are modelled as the real numbers
  they denote (comparisons of finite floats agree with the order of the reals; sums,
  quotients and exponentials are taken exactly, except in the null model, where a
  branch depends on the rounding and the rounding is a parameter), Python integers as
  \<open>int\<close>, exceptions as the left summand of a sum type.
\<close>

datatype py_error = ValueError | IndexError | KeyError | ZeroDivisionError

subsection \<open>Python primitives used by the program\<close>

text \<open>\<^verbatim>\<open>xs.index(x)\<close>: the position of the first occurrence, ValueError when absent.\<close>

fun index_of :: "'a list \<Rightarrow> 'a \<Rightarrow> nat option" where
  "index_of [] x = None"
| "index_of (y # ys) x = (if y = x then Some 0 else map_option Suc (index_of ys x))"

definition list_index :: "'a list \<Rightarrow> 'a \<Rightarrow> py_error + nat" where
  "list_index xs x = (case index_of xs x of None \<Rightarrow> Inl ValueError | Some i \<Rightarrow> Inr i)"

text \<open>\<^verbatim>\<open>xs[i]\<close> for a non-negative index: IndexError out of range.\<close>

definition getitem :: "'a list \<Rightarrow> nat \<Rightarrow> py_error + 'a" where
  "getitem xs i = (if i < length xs then Inr (xs ! i) else Inl IndexError)"

text \<open>\<^verbatim>\<open>a / b\<close> on Python integers: true division, ZeroDivisionError when \<open>b = 0\<close>.\<close>

definition truediv :: "int \<Rightarrow> int \<Rightarrow> py_error + real" where
  "truediv a b = (if b = 0 then Inl ZeroDivisionError else Inr (real_of_int a / real_of_int b))"

text \<open>
  \<^verbatim>\<open>torch.nn.Softmax\<close> over a vector, by its documented formula
  \<open>exp x\<^sub>i / \<Sum>\<^sub>j exp x\<^sub>j\<close>.
\<close>

definition softmax :: "real list \<Rightarrow> real list" where
  "softmax xs = map (\<lambda>x. exp x / sum_list (map exp xs)) xs"

subsection \<open>The restricted decision (main block, per stimulus)\<close>

text \<open>
  \<^verbatim>\<open>
  shape_idx = shape_categories.index(shape)
  texture_idx = shape_categories.index(texture)
  if class_values[shape_idx] > class_values[texture_idx]:
      decision_idx = shape_idx
  else:
      decision_idx = texture_idx
  decision_restricted = shape_categories[decision_idx]
  restricted_class_values = torch.Tensor([class_values[shape_idx], class_values[texture_idx]])
  restricted_class_values = softmax2(restricted_class_values)
  \<close>
  The list of categories (\<^verbatim>\<open>sc.get_human_object_recognition_categories()\<close>) is a
  parameter.
\<close>

record restricted_result =
  decision_restricted :: string
  restricted_class_values :: "real list"

definition restricted_decision ::
  "string list \<Rightarrow> real list \<Rightarrow> string \<Rightarrow> string \<Rightarrow> py_error + restricted_result" where
  "restricted_decision shape_categories class_values shape texture =
     (case list_index shape_categories shape of Inl e \<Rightarrow> Inl e | Inr shape_idx \<Rightarrow>
      case list_index shape_categories texture of Inl e \<Rightarrow> Inl e | Inr texture_idx \<Rightarrow>
      case getitem class_values shape_idx of Inl e \<Rightarrow> Inl e | Inr shape_value \<Rightarrow>
      case getitem class_values texture_idx of Inl e \<Rightarrow> Inl e | Inr texture_value \<Rightarrow>
      case getitem shape_categories
             (if shape_value > texture_value then shape_idx else texture_idx) of
        Inl e \<Rightarrow> Inl e
      | Inr d \<Rightarrow>
          Inr \<lparr>decision_restricted = d,
               restricted_class_values = softmax [shape_value, texture_value]\<rparr>)"

text \<open>The sixteen categories of the stimulus set, in the order the program uses.\<close>

definition geirhos_categories :: "string list" where
  "geirhos_categories =
     [''airplane'', ''bear'', ''bicycle'', ''bird'', ''boat'', ''bottle'', ''car'', ''cat'',
      ''chair'', ''clock'', ''dog'', ''elephant'', ''keyboard'', ''knife'', ''oven'', ''truck'']"

subsection \<open>Proportions of the totals row (\<^verbatim>\<open>calculate_proportions\<close>)\<close>

text \<open>The row of \<^verbatim>\<open>totals.csv\<close>: one per shape category, and the final row \<^verbatim>\<open>total\<close>.\<close>

record totals_row =
  shape_category :: string
  number_shape_decisions :: int
  number_texture_decisions :: int
  number_neither :: int
  number_restricted_shape_decisions :: int
  number_restricted_texture_decisions :: int
  total_number_stimuli :: int

record proportions =
  shape_texture :: real
  texture_shape :: real
  shape_all :: real
  texture_all :: real
  shape_restricted :: real
  texture_restricted :: real

text \<open>
  The divisions are made in the order of the source: the two restricted proportions
  first, then the two over \<open>shape + texture\<close>, then the two over the total.
\<close>

definition calculate_proportions :: "totals_row \<Rightarrow> py_error + proportions" where
  "calculate_proportions row =
     (let shape = number_shape_decisions row;
          texture = number_texture_decisions row;
          total = total_number_stimuli row
      in
      case truediv (number_restricted_shape_decisions row) total of Inl e \<Rightarrow> Inl e | Inr sr \<Rightarrow>
      case truediv (number_restricted_texture_decisions row) total of Inl e \<Rightarrow> Inl e | Inr tr \<Rightarrow>
      case truediv shape (shape + texture) of Inl e \<Rightarrow> Inl e | Inr st \<Rightarrow>
      case truediv texture (shape + texture) of Inl e \<Rightarrow> Inl e | Inr ts \<Rightarrow>
      case truediv shape total of Inl e \<Rightarrow> Inl e | Inr sa \<Rightarrow>
      case truediv texture total of Inl e \<Rightarrow> Inl e | Inr ta \<Rightarrow>
        Inr \<lparr>shape_texture = st, texture_shape = ts, shape_all = sa, texture_all = ta,
             shape_restricted = sr, texture_restricted = tr\<rparr>)"

subsection \<open>Closer indicators of a triplet (\<^verbatim>\<open>triplets\<close>, comparison block)\<close>

record closer_indicators =
  shape_dot_closer :: int
  texture_dot_closer :: int
  shape_cos_closer :: int
  texture_cos_closer :: int
  shape_ed_closer :: int
  texture_ed_closer :: int

text \<open>
  \<^verbatim>\<open>
  if shape_dot > texture_dot:   Shape Dot Closer = 1; Texture Dot Closer = 0
  else:                         Shape Dot Closer = 0; Texture Dot Closer = 1
  if shape_cos > texture_cos:   Shape Cos Closer = 1; Texture Cos Closer = 0
  else:                         Shape Cos Closer = 0; Texture Cos Closer = 1
  if shape_ed < texture_ed:     Shape ED Closer = 1;  Texture ED Closer = 0
  else:                         Shape ED Closer = 0;  Texture ED Closer = 1
  \<close>
\<close>

definition compare_results ::
  "real \<Rightarrow> real \<Rightarrow> real \<Rightarrow> real \<Rightarrow> real \<Rightarrow> real \<Rightarrow> closer_indicators" where
  "compare_results shape_dot shape_cos shape_ed texture_dot texture_cos texture_ed =
     \<lparr>shape_dot_closer = (if shape_dot > texture_dot then 1 else 0),
      texture_dot_closer = (if shape_dot > texture_dot then 0 else 1),
      shape_cos_closer = (if shape_cos > texture_cos then 1 else 0),
      texture_cos_closer = (if shape_cos > texture_cos then 0 else 1),
      shape_ed_closer = (if shape_ed < texture_ed then 1 else 0),
      texture_ed_closer = (if shape_ed < texture_ed then 0 else 1)\<rparr>"

subsection \<open>Similarity measures\<close>

text \<open>
  Vectors are lists of reals. \<open>dot\<close> is the inner product of two vectors of one length,
  \<open>norm2\<close> the Euclidean norm (\<^verbatim>\<open>np.linalg.norm\<close>).
\<close>

definition dot :: "real list \<Rightarrow> real list \<Rightarrow> real" where
  "dot xs ys = sum_list (map2 (*) xs ys)"

definition norm2 :: "real list \<Rightarrow> real" where
  "norm2 xs = sqrt (sum_list (map (\<lambda>x. x * x) xs))"

text \<open>
  \<^verbatim>\<open>torch.nn.CosineSimilarity(dim=0, eps=1e-08)\<close>, by its documented formula
  \<open>x \<bullet> y / max (\<parallel>x\<parallel> * \<parallel>y\<parallel>) eps\<close>.
\<close>

definition cosx :: "real list \<Rightarrow> real list \<Rightarrow> real" where
  "cosx xs ys = dot xs ys / max (norm2 xs * norm2 ys) (1 / 10 ^ 8)"

text \<open>\<^verbatim>\<open>torch.cdist\<close> of two single vectors (p = 2): the norm of the difference.\<close>

definition cdist :: "real list \<Rightarrow> real list \<Rightarrow> real" where
  "cdist xs ys = norm2 (map2 (-) xs ys)"

text \<open>
  \<^verbatim>\<open>scipy.spatial.distance.cosine\<close>: the cosine distance \<open>1 - u \<bullet> v / (\<parallel>u\<parallel> * \<parallel>v\<parallel>)\<close>.
  \<open>None\<close> stands for the not-a-number result of a zero denominator.
\<close>

definition cosine_distance :: "real list \<Rightarrow> real list \<Rightarrow> real option" where
  "cosine_distance u v =
     (if norm2 u * norm2 v = 0 then None else Some (1 - dot u v / (norm2 u * norm2 v)))"

subsection \<open>The triplet engine (\<^verbatim>\<open>triplets\<close>)\<close>

text \<open>
  The three measures of a pair, computed on a cache miss:
  \<^verbatim>\<open>
  shape_dot = np.dot(anchor_output, shape_output)
  shape_cos = cosx(anchor_output, shape_output)
  shape_ed = torch.cdist(torch.unsqueeze(shape_output, 0), torch.unsqueeze(anchor_output, 0))
  \<close>
  \<^verbatim>\<open>np.dot\<close> raises ValueError on vectors of different lengths.
\<close>

type_synonym sims = "real \<times> real \<times> real"

definition similarities :: "real list \<Rightarrow> real list \<Rightarrow> py_error + sims" where
  "similarities anchor_output match_output =
     (if length anchor_output \<noteq> length match_output then Inl ValueError
      else Inr (dot anchor_output match_output, cosx anchor_output match_output,
                cdist match_output anchor_output))"

text \<open>
  The state of a run: \<^verbatim>\<open>sim_dict\<close>, keyed by ordered pairs of image names, and a log of
  the pairs whose similarities were computed, in the order of computation. The log is
  not in the source; it records each execution of the \<^verbatim>\<open>else\<close> branch.
\<close>

type_synonym sim_dict = "string \<times> string \<Rightarrow> sims option"
type_synonym cache_state = "sim_dict \<times> (string \<times> string) list"

text \<open>
  \<^verbatim>\<open>
  if (anchor, shape_match) in sim_dict.keys() or (shape_match, anchor) in sim_dict.keys():
      try:               shape_dot = sim_dict[(anchor, shape_match)][0] ...
      except KeyError:   shape_dot = sim_dict[(shape_match, anchor)][0] ...
  else:
      shape_dot = np.dot(...) ...
      sim_dict[(anchor, shape_match)] = [shape_dot, shape_cos, shape_ed]
  \<close>
\<close>

definition cached_similarities ::
  "cache_state \<Rightarrow> string \<Rightarrow> string \<Rightarrow> real list \<Rightarrow> real list
     \<Rightarrow> py_error + (sims \<times> cache_state)" where
  "cached_similarities st anchor match anchor_output match_output =
     (if fst st (anchor, match) \<noteq> None \<or> fst st (match, anchor) \<noteq> None then
        (case fst st (anchor, match) of
           Some v \<Rightarrow> Inr (v, st)
         | None \<Rightarrow>
            (case fst st (match, anchor) of
               Some v \<Rightarrow> Inr (v, st)
             | None \<Rightarrow> Inl KeyError))
      else
        (case similarities anchor_output match_output of
           Inl e \<Rightarrow> Inl e
         | Inr v \<Rightarrow> Inr (v, ((fst st)((anchor, match) \<mapsto> v), snd st @ [(anchor, match)]))))"

text \<open>
  A row of a per-anchor table: the names of the two matches, the six measures and the six
  indicators (the constant columns Model, Anchor, Anchor Shape and Anchor Texture are
  left out).
\<close>

record similarity_row =
  shape_match_name :: string
  texture_match_name :: string
  shape_sims :: sims
  texture_sims :: sims
  indicators :: closer_indicators

definition triplet_row :: "string \<Rightarrow> string \<Rightarrow> sims \<Rightarrow> sims \<Rightarrow> similarity_row" where
  "triplet_row shape_match texture_match ss ts =
     (case ss of (shape_dot, shape_cos, shape_ed) \<Rightarrow>
      case ts of (texture_dot, texture_cos, texture_ed) \<Rightarrow>
        \<lparr>shape_match_name = shape_match, texture_match_name = texture_match,
         shape_sims = ss, texture_sims = ts,
         indicators =
           compare_results shape_dot shape_cos shape_ed texture_dot texture_cos texture_ed\<rparr>)"

text \<open>
  One triplet of an anchor: the three embeddings are looked up first (KeyError when one
  is missing), then the shape leg and the texture leg go through the cache in this order.
\<close>

definition triplet_step ::
  "(string \<Rightarrow> real list option) \<Rightarrow> string \<Rightarrow> cache_state \<Rightarrow> string \<times> string \<times> string
     \<Rightarrow> py_error + (similarity_row \<times> cache_state)" where
  "triplet_step embeddings anchor st triplet =
     (case triplet of (first, shape_match, texture_match) \<Rightarrow>
      case embeddings anchor of None \<Rightarrow> Inl KeyError | Some anchor_output \<Rightarrow>
      case embeddings shape_match of None \<Rightarrow> Inl KeyError | Some shape_output \<Rightarrow>
      case embeddings texture_match of None \<Rightarrow> Inl KeyError | Some texture_output \<Rightarrow>
      case cached_similarities st anchor shape_match anchor_output shape_output of
        Inl e \<Rightarrow> Inl e
      | Inr (ss, st1) \<Rightarrow>
      case cached_similarities st1 anchor texture_match anchor_output texture_output of
        Inl e \<Rightarrow> Inl e
      | Inr (ts, st2) \<Rightarrow> Inr (triplet_row shape_match texture_match ss ts, st2))"

text \<open>The loop over the triplets of one anchor builds the anchor's table.\<close>

fun anchor_table ::
  "(string \<Rightarrow> real list option) \<Rightarrow> string \<Rightarrow> cache_state \<Rightarrow> (string \<times> string \<times> string) list
     \<Rightarrow> py_error + (similarity_row list \<times> cache_state)" where
  "anchor_table embeddings anchor st [] = Inr ([], st)"
| "anchor_table embeddings anchor st (triplet # rest) =
     (case triplet_step embeddings anchor st triplet of
        Inl e \<Rightarrow> Inl e
      | Inr (row, st1) \<Rightarrow>
         (case anchor_table embeddings anchor st1 rest of
            Inl e \<Rightarrow> Inl e
          | Inr (rows, st2) \<Rightarrow> Inr (row # rows, st2)))"

text \<open>
  The loop over the anchors. The triplets of each anchor (\<^verbatim>\<open>GeirhosTriplets\<close>) are the
  input: a list of anchors, each with its list of triplets. The result is the list of
  per-anchor tables written, and the final state of the cache.
\<close>

fun anchor_loop ::
  "(string \<Rightarrow> real list option) \<Rightarrow> cache_state
     \<Rightarrow> (string \<times> (string \<times> string \<times> string) list) list
     \<Rightarrow> py_error + ((string \<times> similarity_row list) list \<times> cache_state)" where
  "anchor_loop embeddings st [] = Inr ([], st)"
| "anchor_loop embeddings st ((anchor, anchor_triplets) # rest) =
     (case anchor_table embeddings anchor st anchor_triplets of
        Inl e \<Rightarrow> Inl e
      | Inr (rows, st1) \<Rightarrow>
         (case anchor_loop embeddings st1 rest of
            Inl e \<Rightarrow> Inl e
          | Inr (tables, st2) \<Rightarrow> Inr ((anchor, rows) # tables, st2)))"

definition triplets ::
  "(string \<Rightarrow> real list option) \<Rightarrow> (string \<times> (string \<times> string \<times> string) list) list
     \<Rightarrow> py_error + ((string \<times> similarity_row list) list \<times> cache_state)" where
  "triplets embeddings all_triplets = anchor_loop embeddings (Map.empty, []) all_triplets"

text \<open>
  Notions used to state the cache properties. \<open>unordered\<close> is the unordered pair of an
  ordered one. \<open>cache_lookup\<close> is the entry the cache holds for a pair in either order:
  the one under \<open>(a, b)\<close> when there is one, else the one under \<open>(b, a)\<close>. \<open>cache_ok\<close> says
  that the keys of \<^verbatim>\<open>sim_dict\<close> are the logged pairs, and that no unordered pair was
  logged twice.
\<close>

definition unordered :: "string \<times> string \<Rightarrow> string set" where
  "unordered p = {fst p, snd p}"

definition cache_lookup :: "cache_state \<Rightarrow> string \<Rightarrow> string \<Rightarrow> sims option" where
  "cache_lookup st a b =
     (case fst st (a, b) of Some v \<Rightarrow> Some v | None \<Rightarrow> fst st (b, a))"

definition cache_ok :: "cache_state \<Rightarrow> bool" where
  "cache_ok st = (dom (fst st) = set (snd st) \<and> distinct (map unordered (snd st)))"

definition row_cached :: "cache_state \<Rightarrow> string \<Rightarrow> similarity_row \<Rightarrow> bool" where
  "row_cached st anchor row =
     (cache_lookup st anchor (shape_match_name row) = Some (shape_sims row) \<and>
      cache_lookup st anchor (texture_match_name row) = Some (texture_sims row))"

text \<open>
  \<open>extends st st'\<close>: the later state \<open>st'\<close> is well formed and still answers every lookup
  that \<open>st\<close> answers, with the same triple. \<open>has_embedding\<close>: the image has an embedding,
  of length \<open>n\<close>.
\<close>

definition extends :: "cache_state \<Rightarrow> cache_state \<Rightarrow> bool" where
  "extends st st' = (cache_ok st' \<and>
     (\<forall>p q w. cache_lookup st p q = Some w \<longrightarrow> cache_lookup st' p q = Some w))"

definition has_embedding :: "(string \<Rightarrow> real list option) \<Rightarrow> nat \<Rightarrow> string \<Rightarrow> bool" where
  "has_embedding embeddings n name =
     (case embeddings name of None \<Rightarrow> False | Some e \<Rightarrow> length e = n)"

definition triplets_wf ::
  "(string \<Rightarrow> real list option) \<Rightarrow> nat \<Rightarrow> (string \<times> (string \<times> string \<times> string) list) list
     \<Rightarrow> bool" where
  "triplets_wf embeddings n all_triplets =
     list_all (\<lambda>(anchor, anchor_triplets).
        has_embedding embeddings n anchor \<and>
        list_all (\<lambda>(first, shape_match, texture_match).
           has_embedding embeddings n shape_match \<and>
           has_embedding embeddings n texture_match) anchor_triplets) all_triplets"

subsection \<open>The null model (\<^verbatim>\<open>generate_fake_triplets\<close>)\<close>

text \<open>
  In this part the arithmetic of the source's doubles decides which branch is taken (the
  mean of the norms need not lie between the least and the greatest norm once the sum
  and the quotient are rounded), so rounding is explicit: \<open>fl\<close> is the rounding of a real
  result to a double, applied after each addition, subtraction, multiplication and
  division of the source, and \<open>nrm\<close> is \<^verbatim>\<open>np.linalg.norm\<close> as computed. Exact arithmetic
  is the instance where \<open>fl\<close> is the identity and \<open>nrm\<close> is \<open>norm2\<close>.

  The magnitude statistics of the real embeddings:
  \<^verbatim>\<open>
  avg = 0; num_embeddings = 0; min_e = math.inf; max_e = 0
  for embedding in embeddings.values():
      num_embeddings += 1
      mag = np.linalg.norm(embedding)
      avg += mag
      if mag > max_e: max_e = mag
      if mag < min_e: min_e = mag
  avg = avg / num_embeddings
  \<close>
  \<open>min_e\<close> is \<open>None\<close> while it is still infinite. Before the loop the source takes the
  length of the first embedding, which raises IndexError when there is none; so the
  division is never by zero, and \<open>min_e\<close> is finite after the loop.
\<close>

record magnitude_acc =
  acc_avg :: real
  acc_num :: nat
  acc_min :: "real option"
  acc_max :: real

definition magnitude_step ::
  "(real \<Rightarrow> real) \<Rightarrow> (real list \<Rightarrow> real) \<Rightarrow> real list \<Rightarrow> magnitude_acc \<Rightarrow> magnitude_acc" where
  "magnitude_step fl nrm embedding a =
     (let mag = nrm embedding in
      \<lparr>acc_avg = fl (acc_avg a + mag),
       acc_num = acc_num a + 1,
       acc_min = (case acc_min a of None \<Rightarrow> Some mag
                  | Some m \<Rightarrow> if mag < m then Some mag else Some m),
       acc_max = (if mag > acc_max a then mag else acc_max a)\<rparr>)"

definition magnitude_stats ::
  "(real \<Rightarrow> real) \<Rightarrow> (real list \<Rightarrow> real) \<Rightarrow> real list list
     \<Rightarrow> py_error + (real \<times> real \<times> real)" where
  "magnitude_stats fl nrm embeddings =
     (if embeddings = [] then Inl IndexError
      else
        (let a = fold (magnitude_step fl nrm) embeddings
                   \<lparr>acc_avg = 0, acc_num = 0, acc_min = None, acc_max = 0\<rparr>
         in case acc_min a of
              None \<Rightarrow> Inl ZeroDivisionError
            | Some min_e \<Rightarrow> Inr (fl (acc_avg a / real (acc_num a)), min_e, acc_max a)))"

text \<open>The sum as the loop accumulates it: rounded after each addition.\<close>

definition running_sum :: "(real \<Rightarrow> real) \<Rightarrow> real list \<Rightarrow> real" where
  "running_sum fl xs = foldl (\<lambda>s x. fl (s + x)) 0 xs"

text \<open>
  The scale passed to the sampler: \<^verbatim>\<open>min(avg - min_e, max_e - avg) / 2\<close>.
\<close>

definition half_range :: "(real \<Rightarrow> real) \<Rightarrow> real \<Rightarrow> real \<Rightarrow> real \<Rightarrow> real" where
  "half_range fl avg min_e max_e = fl (min (fl (avg - min_e)) (fl (max_e - avg)) / 2)"

text \<open>
  \<^verbatim>\<open>np.random.normal(loc, scale)\<close> raises ValueError when \<open>scale < 0\<close>; otherwise it
  returns a number that depends on \<open>loc\<close>, \<open>scale\<close> and the state of the generator. The
  sampler is a parameter, \<open>sample loc scale g\<close>, and the states \<open>g\<close> met by the successive
  calls of a run are given as a list, consumed from the front.
\<close>

definition random_normal :: "(real \<Rightarrow> real \<Rightarrow> 'g \<Rightarrow> real) \<Rightarrow> real \<Rightarrow> real \<Rightarrow> 'g \<Rightarrow> py_error + real" where
  "random_normal sample loc scale g =
     (if scale < 0 then Inl ValueError else Inr (sample loc scale g))"

text \<open>
  \<^verbatim>\<open>
  mag = -1
  while mag < 0:
      mag = np.random.normal(loc=avg, scale=min(avg - min_e, max_e - avg) / 2)
  \<close>
  The loop has no bound: \<open>None\<close> is the run that has used all the given calls and is
  still drawing. Otherwise the result is the accepted magnitude and the calls left.
\<close>

fun draw_loop ::
  "(real \<Rightarrow> real \<Rightarrow> 'g \<Rightarrow> real) \<Rightarrow> real \<Rightarrow> real \<Rightarrow> real \<Rightarrow> 'g list
     \<Rightarrow> (py_error + real \<times> 'g list) option" where
  "draw_loop sample loc scale mag [] = (if mag < 0 then None else Some (Inr (mag, [])))"
| "draw_loop sample loc scale mag (g # gs) =
     (if mag < 0 then
        (case random_normal sample loc scale g of
           Inl e \<Rightarrow> Some (Inl e)
         | Inr m \<Rightarrow> draw_loop sample loc scale m gs)
      else Some (Inr (mag, g # gs)))"

definition draw_magnitude ::
  "(real \<Rightarrow> real) \<Rightarrow> (real \<Rightarrow> real \<Rightarrow> 'g \<Rightarrow> real) \<Rightarrow> real \<Rightarrow> real \<Rightarrow> real \<Rightarrow> 'g list
     \<Rightarrow> (py_error + real \<times> 'g list) option" where
  "draw_magnitude fl sample avg min_e max_e gs =
     draw_loop sample avg (half_range fl avg min_e max_e) (- 1) gs"

text \<open>
  \<^verbatim>\<open>
  current_mag = np.linalg.norm(l)
  new_l = (mag * l) / current_mag
  \<close>
  When \<open>current_mag\<close> is 0 the quotients are not finite numbers (not-a-number for a zero
  coordinate, as all are when the norm of \<open>l\<close> is 0): \<open>None\<close>.
\<close>

definition rescale :: "(real \<Rightarrow> real) \<Rightarrow> (real list \<Rightarrow> real) \<Rightarrow> real \<Rightarrow> real list \<Rightarrow> real list option" where
  "rescale fl nrm mag l =
     (if nrm l = 0 then None else Some (map (\<lambda>x. fl (fl (mag * x) / nrm l)) l))"

text \<open>
  One synthetic vector: \<open>l\<close> holds the coordinates drawn by \<^verbatim>\<open>random.random()\<close>, \<open>gs\<close>
  the calls of the sampler still to come.
\<close>

definition fake_vector ::
  "(real \<Rightarrow> real) \<Rightarrow> (real list \<Rightarrow> real) \<Rightarrow> (real \<Rightarrow> real \<Rightarrow> 'g \<Rightarrow> real)
     \<Rightarrow> real \<Rightarrow> real \<Rightarrow> real \<Rightarrow> real list \<Rightarrow> 'g list
     \<Rightarrow> (py_error + real list option \<times> 'g list) option" where
  "fake_vector fl nrm sample avg min_e max_e l gs =
     (case draw_magnitude fl sample avg min_e max_e gs of
        None \<Rightarrow> None
      | Some (Inl e) \<Rightarrow> Some (Inl e)
      | Some (Inr (mag, gs')) \<Rightarrow> Some (Inr (rescale fl nrm mag l, gs')))"

text \<open>
  The rounding of binary64 arithmetic on the two results that are not exact when the
  norms 0.1, 0.1, 0.1 (the double nearest to 0.1, \<open>3602879701896397 / 2 ^ 55\<close>) are
  summed and the sum is divided by 3: the sum rounds up to \<open>5404319552844596 / 2 ^ 54\<close>
  (a tie, to the even significand) and the quotient to \<open>7205759403792795 / 2 ^ 56\<close>.
\<close>

definition example_double :: real where
  "example_double = 3602879701896397 / 2 ^ 55"

definition example_rounding :: "real \<Rightarrow> real" where
  "example_rounding x =
     (if x = 3 * example_double then 5404319552844596 / 2 ^ 54
      else if x = (5404319552844596 / 2 ^ 54) / 3 then 7205759403792795 / 2 ^ 56
      else x)"

text \<open>
  The row of a synthetic triplet: dot product and \<^verbatim>\<open>spatial.distance.cosine\<close> for both
  legs and the four indicators; the source computes no Euclidean distance here.
\<close>

record fake_row =
  fake_shape_dot :: real
  fake_shape_cos :: "real option"
  fake_texture_dot :: real
  fake_texture_cos :: "real option"
  fake_shape_dot_closer :: int
  fake_texture_dot_closer :: int
  fake_shape_cos_closer :: int
  fake_texture_cos_closer :: int

text \<open>A comparison with a not-a-number operand is false.\<close>

definition float_gt :: "real option \<Rightarrow> real option \<Rightarrow> bool" where
  "float_gt a b = (case a of None \<Rightarrow> False | Some x \<Rightarrow>
                    (case b of None \<Rightarrow> False | Some y \<Rightarrow> x > y))"

definition fake_similarities :: "real list \<Rightarrow> real list \<Rightarrow> real list \<Rightarrow> fake_row" where
  "fake_similarities anchor shape_match texture_match =
     (let shape_dot = dot anchor shape_match;
          shape_cos = cosine_distance anchor shape_match;
          texture_dot = dot anchor texture_match;
          texture_cos = cosine_distance anchor texture_match
      in \<lparr>fake_shape_dot = shape_dot, fake_shape_cos = shape_cos,
          fake_texture_dot = texture_dot, fake_texture_cos = texture_cos,
          fake_shape_dot_closer = (if shape_dot > texture_dot then 1 else 0),
          fake_texture_dot_closer = (if shape_dot > texture_dot then 0 else 1),
          fake_shape_cos_closer = (if float_gt shape_cos texture_cos then 1 else 0),
          fake_texture_cos_closer = (if float_gt shape_cos texture_cos then 0 else 1)\<rparr>)"

subsection \<open>Similarity totals (\<^verbatim>\<open>calculate_similarity_totals\<close>)\<close>

text \<open>
  A row of a similarity table as \<^verbatim>\<open>pd.read_csv\<close> returns it: the six indicator columns,
  \<open>None\<close> where the table has no column of that name (reading it raises KeyError).
\<close>

record indicator_columns =
  col_shape_dot_closer :: "int option"
  col_shape_cos_closer :: "int option"
  col_shape_ed_closer :: "int option"
  col_texture_dot_closer :: "int option"
  col_texture_cos_closer :: "int option"
  col_texture_ed_closer :: "int option"

definition column :: "int option \<Rightarrow> py_error + int" where
  "column c = (case c of None \<Rightarrow> Inl KeyError | Some v \<Rightarrow> Inr v)"

text \<open>The six reads at the head of the row loop, in the order of the source.\<close>

definition read_indicators :: "indicator_columns \<Rightarrow> py_error + closer_indicators" where
  "read_indicators row =
     (case column (col_shape_dot_closer row) of Inl e \<Rightarrow> Inl e | Inr sd \<Rightarrow>
      case column (col_shape_cos_closer row) of Inl e \<Rightarrow> Inl e | Inr sc \<Rightarrow>
      case column (col_shape_ed_closer row) of Inl e \<Rightarrow> Inl e | Inr se \<Rightarrow>
      case column (col_texture_dot_closer row) of Inl e \<Rightarrow> Inl e | Inr td \<Rightarrow>
      case column (col_texture_cos_closer row) of Inl e \<Rightarrow> Inl e | Inr tc \<Rightarrow>
      case column (col_texture_ed_closer row) of Inl e \<Rightarrow> Inl e | Inr te \<Rightarrow>
        Inr \<lparr>shape_dot_closer = sd, texture_dot_closer = td,
             shape_cos_closer = sc, texture_cos_closer = tc,
             shape_ed_closer = se, texture_ed_closer = te\<rparr>)"

text \<open>What \<^verbatim>\<open>to_csv\<close> writes for a row of the triplet engine: all six columns.\<close>

definition written_columns :: "closer_indicators \<Rightarrow> indicator_columns" where
  "written_columns i =
     \<lparr>col_shape_dot_closer = Some (shape_dot_closer i),
      col_shape_cos_closer = Some (shape_cos_closer i),
      col_shape_ed_closer = Some (shape_ed_closer i),
      col_texture_dot_closer = Some (texture_dot_closer i),
      col_texture_cos_closer = Some (texture_cos_closer i),
      col_texture_ed_closer = Some (texture_ed_closer i)\<rparr>"

text \<open>The running sums of proportions mode and the four cells of matrix mode.\<close>

record closer_sums =
  sum_shape_dot :: int
  sum_shape_cos :: int
  sum_shape_ed :: int
  sum_texture_dot :: int
  sum_texture_cos :: int
  sum_texture_ed :: int
  num_rows :: int

record similarity_matrix =
  m0_0 :: int
  m0_1 :: int
  m1_0 :: int
  m1_1 :: int

definition add_indicators :: "closer_indicators \<Rightarrow> closer_sums \<Rightarrow> closer_sums" where
  "add_indicators i s =
     \<lparr>sum_shape_dot = sum_shape_dot s + shape_dot_closer i,
      sum_shape_cos = sum_shape_cos s + shape_cos_closer i,
      sum_shape_ed = sum_shape_ed s + shape_ed_closer i,
      sum_texture_dot = sum_texture_dot s + texture_dot_closer i,
      sum_texture_cos = sum_texture_cos s + texture_cos_closer i,
      sum_texture_ed = sum_texture_ed s + texture_ed_closer i,
      num_rows = num_rows s + 1\<rparr>"

text \<open>
  \<^verbatim>\<open>
  if shape_dot_closer == 1:
      if shape_cos_closer == 1:     m0_0 += 1
      elif texture_cos_closer == 1: m1_0 += 1
  elif texture_dot_closer == 1:
      if shape_cos_closer == 1:     m0_1 += 1
      elif texture_cos_closer == 1: m1_1 += 1
  \<close>
\<close>

definition matrix_step :: "closer_indicators \<Rightarrow> similarity_matrix \<Rightarrow> similarity_matrix" where
  "matrix_step i m =
     (if shape_dot_closer i = 1 then
        (if shape_cos_closer i = 1 then m\<lparr>m0_0 := m0_0 m + 1\<rparr>
         else if texture_cos_closer i = 1 then m\<lparr>m1_0 := m1_0 m + 1\<rparr>
         else m)
      else if texture_dot_closer i = 1 then
        (if shape_cos_closer i = 1 then m\<lparr>m0_1 := m0_1 m + 1\<rparr>
         else if texture_cos_closer i = 1 then m\<lparr>m1_1 := m1_1 m + 1\<rparr>
         else m)
      else m)"

text \<open>The row loop: every row is read first (KeyError ends the run), then counted.\<close>

fun accumulate ::
  "(closer_indicators \<Rightarrow> 's \<Rightarrow> 's) \<Rightarrow> indicator_columns list \<Rightarrow> 's \<Rightarrow> py_error + 's" where
  "accumulate f [] s = Inr s"
| "accumulate f (row # rows) s =
     (case read_indicators row of Inl e \<Rightarrow> Inl e | Inr i \<Rightarrow> accumulate f rows (f i s))"

text \<open>
  The tables of the similarity directory are given as (file name, rows) in the order
  of the directory listing; the three summary files are skipped.
\<close>

definition similarity_tables ::
  "(string \<times> indicator_columns list) list \<Rightarrow> indicator_columns list" where
  "similarity_tables files =
     concat (map snd (filter (\<lambda>(name, rows).
        \<not> (name = ''averages.csv'' \<or> name = ''proportions.csv'' \<or> name = ''matrix.csv''))
        files))"

record closer_proportions =
  prop_shape_dot :: real
  prop_shape_cos :: real
  prop_shape_ed :: real
  prop_texture_dot :: real
  prop_texture_cos :: real
  prop_texture_ed :: real

datatype similarity_totals = Proportions closer_proportions | Matrix similarity_matrix

definition calculate_similarity_totals ::
  "(string \<times> indicator_columns list) list \<Rightarrow> bool \<Rightarrow> py_error + similarity_totals" where
  "calculate_similarity_totals files matrix =
     (if \<not> matrix then
        (case accumulate add_indicators (similarity_tables files)
                \<lparr>sum_shape_dot = 0, sum_shape_cos = 0, sum_shape_ed = 0,
                 sum_texture_dot = 0, sum_texture_cos = 0, sum_texture_ed = 0,
                 num_rows = 0\<rparr> of
           Inl e \<Rightarrow> Inl e
         | Inr s \<Rightarrow>
            (case truediv (sum_shape_dot s) (num_rows s) of Inl e \<Rightarrow> Inl e | Inr sd \<Rightarrow>
             case truediv (sum_shape_cos s) (num_rows s) of Inl e \<Rightarrow> Inl e | Inr sc \<Rightarrow>
             case truediv (sum_shape_ed s) (num_rows s) of Inl e \<Rightarrow> Inl e | Inr se \<Rightarrow>
             case truediv (sum_texture_dot s) (num_rows s) of Inl e \<Rightarrow> Inl e | Inr td \<Rightarrow>
             case truediv (sum_texture_cos s) (num_rows s) of Inl e \<Rightarrow> Inl e | Inr tc \<Rightarrow>
             case truediv (sum_texture_ed s) (num_rows s) of Inl e \<Rightarrow> Inl e | Inr te \<Rightarrow>
               Inr (Proportions
                 \<lparr>prop_shape_dot = sd, prop_shape_cos = sc, prop_shape_ed = se,
                  prop_texture_dot = td, prop_texture_cos = tc, prop_texture_ed = te\<rparr>)))
      else
        (case accumulate matrix_step (similarity_tables files)
                \<lparr>m0_0 = 0, m0_1 = 0, m1_0 = 0, m1_1 = 0\<rparr> of
           Inl e \<Rightarrow> Inl e
         | Inr m \<Rightarrow> Inr (Matrix m)))"

text \<open>The indicator columns of \<^verbatim>\<open>fake.csv\<close>: the table has no Euclidean columns.\<close>

definition fake_written_columns :: "fake_row \<Rightarrow> indicator_columns" where
  "fake_written_columns r =
     \<lparr>col_shape_dot_closer = Some (fake_shape_dot_closer r),
      col_shape_cos_closer = Some (fake_shape_cos_closer r),
      col_shape_ed_closer = None,
      col_texture_dot_closer = Some (fake_texture_dot_closer r),
      col_texture_cos_closer = Some (fake_texture_cos_closer r),
      col_texture_ed_closer = None\<rparr>"

text \<open>
  An indicator pair is complementary when exactly one of the two is 1 and the other is 0.
\<close>

definition complementary :: "int \<Rightarrow> int \<Rightarrow> bool" where
  "complementary s t = ((s = 1 \<and> t = 0) \<or> (s = 0 \<and> t = 1))"

definition cells_total :: "similarity_matrix \<Rightarrow> int" where
  "cells_total m = m0_0 m + m0_1 m + m1_0 m + m1_1 m"

text \<open>A small run used to exercise the cache: three images, two anchors.\<close>

definition example_embeddings :: "string \<Rightarrow> real list option" where
  "example_embeddings = [''a.png'' \<mapsto> [1, 0], ''b.png'' \<mapsto> [0, 1], ''c.png'' \<mapsto> [1, 1]]"

definition example_triplets :: "(string \<times> (string \<times> string \<times> string) list) list" where
  "example_triplets =
     [(''a.png'', [(''a.png'', ''b.png'', ''c.png'')]),
      (''b.png'', [(''b.png'', ''a.png'', ''c.png'')])]"

definition all_complementary :: "closer_indicators \<Rightarrow> bool" where
  "all_complementary i =
     (complementary (shape_dot_closer i) (texture_dot_closer i) \<and>
      complementary (shape_cos_closer i) (texture_cos_closer i) \<and>
      complementary (shape_ed_closer i) (texture_ed_closer i))"

subsection \<open>Totals by shape category (\<^verbatim>\<open>calculate_totals\<close>)\<close>

text \<open>
  A row of a per-shape decision table, with the columns \<^verbatim>\<open>calculate_totals\<close> reads.
\<close>

record decision_row =
  row_shape :: string
  shape_decision :: int
  texture_decision :: int
  neither_decision :: int
  restricted_shape_decision :: int
  restricted_texture_decision :: int

text \<open>
  The five dictionaries of counts, keyed by shape category. A dictionary is an
  association list with one entry per key, in insertion order; \<^verbatim>\<open>dict.fromkeys\<close> and
  the loop that sets every count to 0 make the initial dictionary.
\<close>

type_synonym count_dict = "(string \<times> int) list"

record count_dicts =
  shape_dict :: count_dict
  texture_dict :: count_dict
  neither_dict :: count_dict
  restricted_shape_dict :: count_dict
  restricted_texture_dict :: count_dict

definition zero_dict :: "string list \<Rightarrow> count_dict" where
  "zero_dict shape_categories = fold (\<lambda>shape d. AList.update shape 0 d) shape_categories []"

text \<open>\<^verbatim>\<open>d[k] += v\<close>: KeyError when \<open>k\<close> is not a key.\<close>

definition dict_add :: "count_dict \<Rightarrow> string \<Rightarrow> int \<Rightarrow> py_error + count_dict" where
  "dict_add d k v =
     (case map_of d k of None \<Rightarrow> Inl KeyError | Some x \<Rightarrow> Inr (AList.update k (x + v) d))"

text \<open>
  \<^verbatim>\<open>
  if row['Restricted Shape Decision'] != row['Restricted Texture Decision']:
      shape_dict[shape] = shape_dict[shape] + row['Shape Decision']
      texture_dict[shape] += row['Texture Decision']
      neither_dict[shape] += row['Neither']
      restricted_shape_dict[shape] += row['Restricted Shape Decision']
      restricted_texture_dict[shape] += row['Restricted Texture Decision']
  \<close>
\<close>

definition count_row :: "string \<Rightarrow> decision_row \<Rightarrow> count_dicts \<Rightarrow> py_error + count_dicts" where
  "count_row shape row c =
     (if restricted_shape_decision row \<noteq> restricted_texture_decision row then
        (case dict_add (shape_dict c) shape (shape_decision row) of
           Inl e \<Rightarrow> Inl e | Inr sd \<Rightarrow>
         case dict_add (texture_dict c) shape (texture_decision row) of
           Inl e \<Rightarrow> Inl e | Inr td \<Rightarrow>
         case dict_add (neither_dict c) shape (neither_decision row) of
           Inl e \<Rightarrow> Inl e | Inr nd \<Rightarrow>
         case dict_add (restricted_shape_dict c) shape (restricted_shape_decision row) of
           Inl e \<Rightarrow> Inl e | Inr rsd \<Rightarrow>
         case dict_add (restricted_texture_dict c) shape (restricted_texture_decision row) of
           Inl e \<Rightarrow> Inl e | Inr rtd \<Rightarrow>
           Inr \<lparr>shape_dict = sd, texture_dict = td, neither_dict = nd,
                restricted_shape_dict = rsd, restricted_texture_dict = rtd\<rparr>)
      else Inr c)"

fun count_rows :: "string \<Rightarrow> decision_row list \<Rightarrow> count_dicts \<Rightarrow> py_error + count_dicts" where
  "count_rows shape [] c = Inr c"
| "count_rows shape (row # rows) c =
     (case count_row shape row c of Inl e \<Rightarrow> Inl e | Inr c' \<Rightarrow> count_rows shape rows c')"

text \<open>
  The files of the result directory, as (file name, rows), in the order of the listing.
  \<^verbatim>\<open>
  if filename[-4:] != '.csv' or filename == 'totals.csv': continue
  df = pd.read_csv(result_dir + '/' + filename)
  shape = df['Shape'][0]
  \<close>
  The shape of a table is the Shape entry of its first row; a table with no row has no
  entry 0 (KeyError).
\<close>

definition skipped :: "string \<Rightarrow> bool" where
  "skipped filename =
     (drop (length filename - 4) filename \<noteq> ''.csv'' \<or> filename = ''totals.csv'')"

fun count_files ::
  "(string \<times> decision_row list) list \<Rightarrow> count_dicts \<Rightarrow> py_error + count_dicts" where
  "count_files [] c = Inr c"
| "count_files ((filename, rows) # files) c =
     (if skipped filename then count_files files c
      else (case rows of
              [] \<Rightarrow> Inl KeyError
            | first # others \<Rightarrow>
               (case count_rows (row_shape first) rows c of
                  Inl e \<Rightarrow> Inl e
                | Inr c' \<Rightarrow> count_files files c')))"

text \<open>
  The result table has one row per position of the category list and a final row; a
  position not written yet holds no row (\<open>None\<close>). The row of a category is written at
  \<^verbatim>\<open>shape_categories.index(shape)\<close>.
\<close>

definition dict_get :: "count_dict \<Rightarrow> string \<Rightarrow> py_error + int" where
  "dict_get d k = (case map_of d k of None \<Rightarrow> Inl KeyError | Some x \<Rightarrow> Inr x)"

definition category_row :: "count_dicts \<Rightarrow> string \<Rightarrow> py_error + totals_row" where
  "category_row c shape =
     (case dict_get (shape_dict c) shape of Inl e \<Rightarrow> Inl e | Inr s \<Rightarrow>
      case dict_get (texture_dict c) shape of Inl e \<Rightarrow> Inl e | Inr t \<Rightarrow>
      case dict_get (neither_dict c) shape of Inl e \<Rightarrow> Inl e | Inr n \<Rightarrow>
      case dict_get (restricted_shape_dict c) shape of Inl e \<Rightarrow> Inl e | Inr rs \<Rightarrow>
      case dict_get (restricted_texture_dict c) shape of Inl e \<Rightarrow> Inl e | Inr rt \<Rightarrow>
        Inr \<lparr>shape_category = shape, number_shape_decisions = s,
             number_texture_decisions = t, number_neither = n,
             number_restricted_shape_decisions = rs,
             number_restricted_texture_decisions = rt,
             total_number_stimuli = s + t + n\<rparr>)"

fun write_rows ::
  "string list \<Rightarrow> count_dicts \<Rightarrow> string list \<Rightarrow> totals_row option list
     \<Rightarrow> py_error + totals_row option list" where
  "write_rows shape_categories c [] result_df = Inr result_df"
| "write_rows shape_categories c (shape # shapes) result_df =
     (case list_index shape_categories shape of Inl e \<Rightarrow> Inl e | Inr shape_idx \<Rightarrow>
      case category_row c shape of Inl e \<Rightarrow> Inl e | Inr row \<Rightarrow>
        write_rows shape_categories c shapes (result_df[shape_idx := Some row]))"

definition dict_sum :: "count_dict \<Rightarrow> int" where
  "dict_sum d = sum_list (map snd d)"

definition total_row :: "count_dicts \<Rightarrow> totals_row" where
  "total_row c =
     \<lparr>shape_category = ''total'',
      number_shape_decisions = dict_sum (shape_dict c),
      number_texture_decisions = dict_sum (texture_dict c),
      number_neither = dict_sum (neither_dict c),
      number_restricted_shape_decisions = dict_sum (restricted_shape_dict c),
      number_restricted_texture_decisions = dict_sum (restricted_texture_dict c),
      total_number_stimuli =
        dict_sum (neither_dict c) + dict_sum (texture_dict c) + dict_sum (shape_dict c)\<rparr>"

definition calculate_totals ::
  "string list \<Rightarrow> (string \<times> decision_row list) list \<Rightarrow> py_error + totals_row option list" where
  "calculate_totals shape_categories files =
     (let z = zero_dict shape_categories in
      case count_files files
             \<lparr>shape_dict = z, texture_dict = z, neither_dict = z,
              restricted_shape_dict = z, restricted_texture_dict = z\<rparr> of
        Inl e \<Rightarrow> Inl e
      | Inr c \<Rightarrow>
         (case write_rows shape_categories c shape_categories
                 (replicate (length shape_categories + 1) None) of
            Inl e \<Rightarrow> Inl e
          | Inr result_df \<Rightarrow>
              Inr (result_df[length shape_categories := Some (total_row c)])))"

text \<open>
  The counts as the specification words them: for a shape category, the sum of a column
  over the rows with differing restricted indicators of the tables read whose shape is
  that category.
\<close>

definition decisive :: "decision_row \<Rightarrow> bool" where
  "decisive row = (restricted_shape_decision row \<noteq> restricted_texture_decision row)"

definition table_count :: "(decision_row \<Rightarrow> int) \<Rightarrow> string \<Rightarrow> string \<times> decision_row list \<Rightarrow> int" where
  "table_count col shape table =
     (case snd table of
        [] \<Rightarrow> 0
      | first # others \<Rightarrow>
          if skipped (fst table) \<or> row_shape first \<noteq> shape then 0
          else sum_list (map col (filter decisive (snd table))))"

definition filtered_count ::
  "(decision_row \<Rightarrow> int) \<Rightarrow> (string \<times> decision_row list) list \<Rightarrow> string \<Rightarrow> int" where
  "filtered_count col files shape = sum_list (map (table_count col shape) files)"

text \<open>The tables read are well formed: each has a row, and its shape is a category.\<close>

definition tables_wf :: "string list \<Rightarrow> (string \<times> decision_row list) list \<Rightarrow> bool" where
  "tables_wf shape_categories files =
     list_all (\<lambda>table. skipped (fst table) \<or>
        (case snd table of [] \<Rightarrow> False | first # others \<Rightarrow> row_shape first \<in> set shape_categories))
       files"

text \<open>
  For the proofs: the dictionary that maps each category to \<open>g\<close> of it, the five
  dictionaries given by one count per column and category, and the row the
  specification expects for a category.
\<close>

definition dict_of :: "string list \<Rightarrow> (string \<Rightarrow> int) \<Rightarrow> count_dict" where
  "dict_of shape_categories g = map (\<lambda>k. (k, g k)) shape_categories"

definition dicts_of ::
  "string list \<Rightarrow> ((decision_row \<Rightarrow> int) \<Rightarrow> string \<Rightarrow> int) \<Rightarrow> count_dicts" where
  "dicts_of shape_categories G =
     \<lparr>shape_dict = dict_of shape_categories (G shape_decision),
      texture_dict = dict_of shape_categories (G texture_decision),
      neither_dict = dict_of shape_categories (G neither_decision),
      restricted_shape_dict = dict_of shape_categories (G restricted_shape_decision),
      restricted_texture_dict = dict_of shape_categories (G restricted_texture_decision)\<rparr>"

definition expected_row ::
  "((decision_row \<Rightarrow> int) \<Rightarrow> string \<Rightarrow> int) \<Rightarrow> string \<Rightarrow> totals_row" where
  "expected_row G shape =
     \<lparr>shape_category = shape,
      number_shape_decisions = G shape_decision shape,
      number_texture_decisions = G texture_decision shape,
      number_neither = G neither_decision shape,
      number_restricted_shape_decisions = G restricted_shape_decision shape,
      number_restricted_texture_decisions = G restricted_texture_decision shape,
      total_number_stimuli =
        G shape_decision shape + G texture_decision shape + G neither_decision shape\<rparr>"

text \<open>A small result directory: two tables, and two files that are skipped.\<close>

definition example_tables :: "(string \<times> decision_row list) list" where
  "example_tables =
     [(''cat.csv'',
       [\<lparr>row_shape = ''cat'', shape_decision = 1, texture_decision = 0, neither_decision = 0,
         restricted_shape_decision = 1, restricted_texture_decision = 0\<rparr>,
        \<lparr>row_shape = ''cat'', shape_decision = 0, texture_decision = 0, neither_decision = 1,
         restricted_shape_decision = 0, restricted_texture_decision = 1\<rparr>,
        \<lparr>row_shape = ''cat'', shape_decision = 1, texture_decision = 1, neither_decision = 0,
         restricted_shape_decision = 1, restricted_texture_decision = 1\<rparr>]),
      (''totals.csv'', []),
      (''proportions.txt'', []),
      (''dog.csv'',
       [\<lparr>row_shape = ''dog'', shape_decision = 0, texture_decision = 1, neither_decision = 0,
         restricted_shape_decision = 0, restricted_texture_decision = 1\<rparr>])]"



section \<open>Properties\<close>

subsection \<open>Helper facts\<close>

lemma index_of_less: "index_of xs x = Some i \<Longrightarrow> i < length xs"
  by (induction xs arbitrary: i) (auto split: if_splits)

lemma index_of_nth: "index_of xs x = Some i \<Longrightarrow> xs ! i = x"
  by (induction xs arbitrary: i) (auto split: if_splits)

lemma index_of_mem: "x \<in> set xs \<Longrightarrow> \<exists>i. index_of xs x = Some i"
  by (induction xs) auto

lemma softmax_pair_sum: "sum_list (softmax [a, b]) = 1"
proof -
  have pos: "exp a + exp b \<noteq> 0"
    using exp_gt_zero [of a] exp_gt_zero [of b] by linarith
  have "sum_list (softmax [a, b]) = exp a / (exp a + exp b) + exp b / (exp a + exp b)"
    by (simp add: softmax_def)
  also have "\<dots> = (exp a + exp b) / (exp a + exp b)"
    by (simp only: add_divide_distrib)
  also have "\<dots> = 1"
    using pos by simp
  finally show ?thesis .
qed

lemma restricted_decision_wf:
  assumes "index_of cats shape = Some si" and "index_of cats texture = Some ti"
    and "length cv = length cats"
  shows "restricted_decision cats cv shape texture =
           Inr \<lparr>decision_restricted = (if cv ! si > cv ! ti then shape else texture),
                restricted_class_values = softmax [cv ! si, cv ! ti]\<rparr>"
proof -
  have si: "si < length cats" and ti: "ti < length cats"
    using assms index_of_less by fastforce+
  have "cats ! si = shape" and "cats ! ti = texture"
    using assms index_of_nth by fastforce+
  with si ti assms show ?thesis
    by (simp add: restricted_decision_def list_index_def getitem_def)
qed

lemma matrix_step_total:
  "cells_total (matrix_step i m) = cells_total m +
     (if (shape_dot_closer i = 1 \<or> texture_dot_closer i = 1) \<and>
         (shape_cos_closer i = 1 \<or> texture_cos_closer i = 1) then 1 else 0)"
  by (simp add: matrix_step_def cells_total_def)

subsection \<open>The restricted decision\<close>

text \<open>
  C1 (as the code has it). For a score vector as long as the category list and shape and
  texture labels in the list, the restricted decision is the shape label when the shape
  score is strictly higher than the texture score and the texture label otherwise: the
  higher score wins, and an exact tie goes to the texture label.
\<close>

theorem restricted_decision_higher_score_tie_texture:
  assumes "index_of cats shape = Some si" and "index_of cats texture = Some ti"
    and "length cv = length cats"
  shows "\<exists>r. restricted_decision cats cv shape texture = Inr r \<and>
           (cv ! si > cv ! ti \<longrightarrow> decision_restricted r = shape) \<and>
           (cv ! si < cv ! ti \<longrightarrow> decision_restricted r = texture) \<and>
           (cv ! si = cv ! ti \<longrightarrow> decision_restricted r = texture)"
  using restricted_decision_wf [OF assms] by auto

theorem restricted_decision_higher_score_tie_texture_witness:
  "index_of geirhos_categories ''cat'' = Some 7 \<and>
   index_of geirhos_categories ''truck'' = Some 15 \<and>
   (\<exists>r. restricted_decision geirhos_categories
          [0, 0, 0, 0, 0, 0, 0, 7 / 10, 0, 0, 0, 0, 0, 0, 0, 2 / 10] ''cat'' ''truck'' = Inr r \<and>
        decision_restricted r = ''cat'')"
proof -
  have s: "index_of geirhos_categories ''cat'' = Some 7"
    by (simp add: geirhos_categories_def)
  have t: "index_of geirhos_categories ''truck'' = Some 15"
    by (simp add: geirhos_categories_def)
  have l: "length [0, 0, 0, 0, 0, 0, 0, 7 / 10, 0, 0, 0, 0, 0, 0, 0, 2 / 10 :: real]
             = length geirhos_categories"
    by (simp add: geirhos_categories_def)
  show ?thesis
    using s t restricted_decision_higher_score_tie_texture [OF s t l] by simp
qed

text \<open>
  The claim as stated (a tie is broken toward the shape label) fails: with all sixteen
  scores equal to 0, shape label cat and texture label truck, the restricted decision is
  truck.
\<close>

theorem restricted_decision_tie_counterexample:
  "restricted_decision geirhos_categories (replicate 16 0) ''cat'' ''truck''
     = Inr \<lparr>decision_restricted = ''truck'', restricted_class_values = [1 / 2, 1 / 2]\<rparr>"
  by (simp add: restricted_decision_def list_index_def getitem_def geirhos_categories_def
      softmax_def numeral_eq_Suc)

text \<open>
  C2. When the shape score and the texture score differ, the restricted decision is the
  label with the higher raw score, and the restricted 2-vector (the softmax of the two
  raw scores) has two entries that sum to 1 in exact arithmetic.
\<close>

theorem restricted_decision_distinct_scores:
  assumes "index_of cats shape = Some si" and "index_of cats texture = Some ti"
    and "length cv = length cats" and "cv ! si \<noteq> cv ! ti"
  shows "\<exists>r. restricted_decision cats cv shape texture = Inr r \<and>
           (cv ! si > cv ! ti \<longrightarrow> decision_restricted r = shape) \<and>
           (cv ! ti > cv ! si \<longrightarrow> decision_restricted r = texture) \<and>
           restricted_class_values r = softmax [cv ! si, cv ! ti] \<and>
           length (restricted_class_values r) = 2 \<and>
           sum_list (restricted_class_values r) = 1"
proof -
  have "restricted_decision cats cv shape texture =
           Inr \<lparr>decision_restricted = (if cv ! si > cv ! ti then shape else texture),
                restricted_class_values = softmax [cv ! si, cv ! ti]\<rparr>"
    using assms(1-3) by (rule restricted_decision_wf)
  moreover have "sum_list (softmax [cv ! si, cv ! ti]) = 1"
    by (rule softmax_pair_sum)
  moreover have "length (softmax [cv ! si, cv ! ti]) = 2"
    by (simp add: softmax_def)
  ultimately show ?thesis by auto
qed

theorem restricted_decision_distinct_scores_witness:
  "index_of geirhos_categories ''cat'' = Some 7 \<and>
   index_of geirhos_categories ''truck'' = Some 15 \<and>
   (\<exists>r. restricted_decision geirhos_categories
          [0, 0, 0, 0, 0, 0, 0, 2 / 10, 0, 0, 0, 0, 0, 0, 0, 7 / 10] ''cat'' ''truck'' = Inr r \<and>
        decision_restricted r = ''truck'' \<and>
        length (restricted_class_values r) = 2 \<and>
        sum_list (restricted_class_values r) = 1)"
proof -
  have s: "index_of geirhos_categories ''cat'' = Some 7"
    by (simp add: geirhos_categories_def)
  have t: "index_of geirhos_categories ''truck'' = Some 15"
    by (simp add: geirhos_categories_def)
  have l: "length [0, 0, 0, 0, 0, 0, 0, 2 / 10, 0, 0, 0, 0, 0, 0, 0, 7 / 10 :: real]
             = length geirhos_categories"
    by (simp add: geirhos_categories_def)
  have d: "[0, 0, 0, 0, 0, 0, 0, 2 / 10, 0, 0, 0, 0, 0, 0, 0, 7 / 10 :: real] ! 7
             \<noteq> [0, 0, 0, 0, 0, 0, 0, 2 / 10, 0, 0, 0, 0, 0, 0, 0, 7 / 10 :: real] ! 15"
    by simp
  show ?thesis
    using s t restricted_decision_distinct_scores [OF s t l d] by auto
qed

subsection \<open>Proportions\<close>

text \<open>
  C8. When shape + texture of the totals row is 0, the proportion computation fails with
  a division error and yields no value; when shape + texture and the total are both
  positive it succeeds with shape/(shape+texture), texture/(shape+texture), shape/total,
  texture/total and the two restricted counts over the total.
\<close>

theorem calculate_proportions_division:
  "(number_shape_decisions row + number_texture_decisions row = 0 \<longrightarrow>
      calculate_proportions row = Inl ZeroDivisionError) \<and>
   (number_shape_decisions row + number_texture_decisions row > 0 \<and>
    total_number_stimuli row > 0 \<longrightarrow>
      calculate_proportions row =
        Inr \<lparr>shape_texture = real_of_int (number_shape_decisions row) /
                 real_of_int (number_shape_decisions row + number_texture_decisions row),
             texture_shape = real_of_int (number_texture_decisions row) /
                 real_of_int (number_shape_decisions row + number_texture_decisions row),
             shape_all = real_of_int (number_shape_decisions row) /
                 real_of_int (total_number_stimuli row),
             texture_all = real_of_int (number_texture_decisions row) /
                 real_of_int (total_number_stimuli row),
             shape_restricted = real_of_int (number_restricted_shape_decisions row) /
                 real_of_int (total_number_stimuli row),
             texture_restricted = real_of_int (number_restricted_texture_decisions row) /
                 real_of_int (total_number_stimuli row)\<rparr>)"
  by (simp add: calculate_proportions_def truediv_def Let_def)

theorem calculate_proportions_division_witness:
  "calculate_proportions
     \<lparr>shape_category = ''total'', number_shape_decisions = 0, number_texture_decisions = 0,
      number_neither = 5, number_restricted_shape_decisions = 3,
      number_restricted_texture_decisions = 2, total_number_stimuli = 5\<rparr>
     = Inl ZeroDivisionError \<and>
   calculate_proportions
     \<lparr>shape_category = ''total'', number_shape_decisions = 80, number_texture_decisions = 20,
      number_neither = 0, number_restricted_shape_decisions = 70,
      number_restricted_texture_decisions = 30, total_number_stimuli = 100\<rparr>
     = Inr \<lparr>shape_texture = 8 / 10, texture_shape = 2 / 10, shape_all = 8 / 10,
            texture_all = 2 / 10, shape_restricted = 7 / 10, texture_restricted = 3 / 10\<rparr>"
  using calculate_proportions_division
      [of "\<lparr>shape_category = ''total'', number_shape_decisions = 0,
            number_texture_decisions = 0, number_neither = 5,
            number_restricted_shape_decisions = 3,
            number_restricted_texture_decisions = 2, total_number_stimuli = 5\<rparr>"]
    calculate_proportions_division
      [of "\<lparr>shape_category = ''total'', number_shape_decisions = 80,
            number_texture_decisions = 20, number_neither = 0,
            number_restricted_shape_decisions = 70,
            number_restricted_texture_decisions = 30, total_number_stimuli = 100\<rparr>"]
  by simp

subsection \<open>The pairwise similarity cache\<close>

lemma unordered_eq: "unordered (a, b) = unordered (c, d) \<longleftrightarrow> (a = c \<and> b = d) \<or> (a = d \<and> b = c)"
  unfolding unordered_def fst_conv snd_conv by (rule doubleton_eq_iff)

lemma cache_ok_one_order:
  assumes "cache_ok st" and "fst st (a, b) \<noteq> None" and "fst st (b, a) \<noteq> None"
  shows "a = b"
proof -
  from assms(2,3) have "(a, b) \<in> dom (fst st)" "(b, a) \<in> dom (fst st)"
    by (simp_all add: domIff)
  moreover from assms(1) have "dom (fst st) = set (snd st)"
    by (simp add: cache_ok_def)
  ultimately have m: "(a, b) \<in> set (snd st)" "(b, a) \<in> set (snd st)"
    by simp_all
  from assms(1) have "distinct (map unordered (snd st))"
    unfolding cache_ok_def by (rule conjunct2)
  then have "inj_on unordered (set (snd st))"
    unfolding distinct_map by (rule conjunct2)
  moreover have "unordered (a, b) = unordered (b, a)"
    unfolding unordered_def fst_conv snd_conv by (rule insert_commute)
  ultimately have "(a, b) = (b, a)"
    using m by (rule inj_onD)
  then have "fst (a, b) = fst (b, a)"
    by (rule arg_cong)
  then show ?thesis
    unfolding fst_conv .
qed

lemma cache_lookup_sym:
  assumes "cache_ok st"
  shows "cache_lookup st a b = cache_lookup st b a"
proof (cases "fst st (a, b)")
  case None
  then show ?thesis by (simp add: cache_lookup_def split: option.splits)
next
  case (Some v)
  show ?thesis
  proof (cases "fst st (b, a)")
    case None
    with Some show ?thesis by (simp add: cache_lookup_def)
  next
    case (Some w)
    with \<open>fst st (a, b) = Some v\<close> assms have "a = b"
      using cache_ok_one_order by blast
    then show ?thesis by simp
  qed
qed

lemma cached_hit:
  assumes "cache_lookup st a b = Some v"
  shows "cached_similarities st a b x y = Inr (v, st)"
  using assms by (auto simp: cached_similarities_def cache_lookup_def split: option.splits)

lemma cached_similarities_cases:
  assumes "cached_similarities st a m x y = Inr (v, st')"
  shows "(cache_lookup st a m = Some v \<and> st' = st) \<or>
         (fst st (a, m) = None \<and> fst st (m, a) = None \<and> similarities x y = Inr v \<and>
          st' = ((fst st)((a, m) \<mapsto> v), snd st @ [(a, m)]))"
  using assms
  by (auto simp: cached_similarities_def cache_lookup_def split: option.splits sum.splits if_splits)

lemma cache_ok_insert:
  assumes ok: "cache_ok st" and n1: "fst st (a, m) = None" and n2: "fst st (m, a) = None"
  shows "cache_ok ((fst st)((a, m) \<mapsto> v), snd st @ [(a, m)])"
proof -
  from ok have d: "dom (fst st) = set (snd st)" and di: "distinct (map unordered (snd st))"
    by (simp_all add: cache_ok_def)
  have "unordered (a, m) \<notin> unordered ` set (snd st)"
  proof
    assume "unordered (a, m) \<in> unordered ` set (snd st)"
    then obtain c e where ce: "(c, e) \<in> set (snd st)" "unordered (a, m) = unordered (c, e)"
      by auto
    then have "(c, e) = (a, m) \<or> (c, e) = (m, a)"
      unfolding unordered_eq by auto
    with ce(1) d have "(a, m) \<in> dom (fst st) \<or> (m, a) \<in> dom (fst st)"
      by auto
    then have "fst st (a, m) \<noteq> None \<or> fst st (m, a) \<noteq> None"
      by (simp add: domIff)
    with n1 n2 show False by simp
  qed
  with d di show ?thesis
    by (simp add: cache_ok_def)
qed

lemma extends_refl: "cache_ok st \<Longrightarrow> extends st st"
  by (simp add: extends_def)

lemma extends_trans: "extends st st1 \<Longrightarrow> extends st1 st2 \<Longrightarrow> extends st st2"
  unfolding extends_def by blast

lemma cached_similarities_extends:
  assumes ok: "cache_ok st" and r: "cached_similarities st a m x y = Inr (v, st')"
  shows "extends st st' \<and> cache_lookup st' a m = Some v"
  using cached_similarities_cases [OF r]
proof
  assume "cache_lookup st a m = Some v \<and> st' = st"
  with ok show ?thesis by (simp add: extends_def)
next
  assume h: "fst st (a, m) = None \<and> fst st (m, a) = None \<and> similarities x y = Inr v \<and>
          st' = ((fst st)((a, m) \<mapsto> v), snd st @ [(a, m)])"
  then have ok': "cache_ok st'"
    using cache_ok_insert [OF ok] by simp
  have look: "cache_lookup st' a m = Some v"
    using h by (simp add: cache_lookup_def)
  have mono: "cache_lookup st' p q = Some w" if "cache_lookup st p q = Some w" for p q w
  proof -
    from that h have "(p, q) \<noteq> (a, m)" "(q, p) \<noteq> (a, m)"
      by (auto simp: cache_lookup_def split: option.splits)
    with that h show ?thesis
      by (auto simp: cache_lookup_def split: option.splits)
  qed
  from ok' look mono show ?thesis
    by (simp add: extends_def)
qed

lemma triplet_step_extends:
  assumes ok: "cache_ok st" and r: "triplet_step emb anchor st t = Inr (row, st')"
  shows "extends st st' \<and> row_cached st' anchor row"
proof -
  obtain f sm tm where t: "t = (f, sm, tm)" by (cases t) auto
  from r t obtain ao so to ss st1 ts where
    c1: "cached_similarities st anchor sm ao so = Inr (ss, st1)" and
    c2: "cached_similarities st1 anchor tm ao to = Inr (ts, st')" and
    row: "row = triplet_row sm tm ss ts"
    by (auto simp: triplet_step_def split: option.splits sum.splits prod.splits)
  from cached_similarities_extends [OF ok c1]
  have e1: "extends st st1" and l1: "cache_lookup st1 anchor sm = Some ss" by simp_all
  then have ok1: "cache_ok st1" by (simp add: extends_def)
  from cached_similarities_extends [OF ok1 c2]
  have e2: "extends st1 st'" and l2: "cache_lookup st' anchor tm = Some ts" by simp_all
  from e2 l1 have l1': "cache_lookup st' anchor sm = Some ss"
    unfolding extends_def by blast
  have "row_cached st' anchor row"
    using l1' l2 row by (simp add: row_cached_def triplet_row_def split: prod.splits)
  with e1 e2 show ?thesis
    using extends_trans by blast
qed

lemma row_cached_extends: "extends st st' \<Longrightarrow> row_cached st anchor row \<Longrightarrow> row_cached st' anchor row"
  unfolding extends_def row_cached_def by blast

lemma anchor_table_extends:
  "cache_ok st \<Longrightarrow> anchor_table emb anchor st ts = Inr (rows, st') \<Longrightarrow>
   extends st st' \<and> (\<forall>row\<in>set rows. row_cached st' anchor row)"
proof (induction ts arbitrary: st rows)
  case Nil
  then show ?case by (simp add: extends_refl)
next
  case (Cons t ts)
  from Cons.prems(2) obtain row st1 rows' where
    s: "triplet_step emb anchor st t = Inr (row, st1)" and
    r: "anchor_table emb anchor st1 ts = Inr (rows', st')" and
    rows: "rows = row # rows'"
    by (auto split: sum.splits prod.splits)
  from triplet_step_extends [OF Cons.prems(1) s]
  have e1: "extends st st1" and rc: "row_cached st1 anchor row" by simp_all
  then have ok1: "cache_ok st1" by (simp add: extends_def)
  from Cons.IH [OF ok1 r]
  have e2: "extends st1 st'" and all: "\<forall>row\<in>set rows'. row_cached st' anchor row" by simp_all
  from e2 rc have "row_cached st' anchor row" by (rule row_cached_extends)
  with all rows e1 e2 show ?case
    using extends_trans by auto
qed

lemma anchor_loop_extends:
  "cache_ok st \<Longrightarrow> anchor_loop emb st images = Inr (tables, st') \<Longrightarrow>
   extends st st' \<and> (\<forall>(anchor, rows)\<in>set tables. \<forall>row\<in>set rows. row_cached st' anchor row)"
proof (induction images arbitrary: st tables)
  case Nil
  then show ?case by (simp add: extends_refl)
next
  case (Cons im images)
  obtain anchor ts where im: "im = (anchor, ts)" by (cases im) auto
  from Cons.prems(2) im obtain rows st1 tables' where
    s: "anchor_table emb anchor st ts = Inr (rows, st1)" and
    r: "anchor_loop emb st1 images = Inr (tables', st')" and
    tables: "tables = (anchor, rows) # tables'"
    by (auto split: sum.splits prod.splits)
  from anchor_table_extends [OF Cons.prems(1) s]
  have e1: "extends st st1" and rc: "\<forall>row\<in>set rows. row_cached st1 anchor row" by simp_all
  then have ok1: "cache_ok st1" by (simp add: extends_def)
  from Cons.IH [OF ok1 r]
  have e2: "extends st1 st'" and
    all: "\<forall>(anchor, rows)\<in>set tables'. \<forall>row\<in>set rows. row_cached st' anchor row" by simp_all
  from e2 rc have "\<forall>row\<in>set rows. row_cached st' anchor row"
    using row_cached_extends by blast
  with all tables e1 e2 show ?case
    using extends_trans by auto
qed

lemma cache_ok_empty: "cache_ok (Map.empty, [])"
  by (simp add: cache_ok_def)

lemma cached_similarities_returns:
  "length x = length y \<Longrightarrow> \<exists>v st'. cached_similarities st a m x y = Inr (v, st')"
  by (auto simp: cached_similarities_def similarities_def split: option.splits)

lemma triplet_step_returns:
  assumes "has_embedding emb n anchor" and "has_embedding emb n sm" and "has_embedding emb n tm"
  shows "\<exists>row st'. triplet_step emb anchor st (f, sm, tm) = Inr (row, st')"
proof -
  from assms obtain ao so to where
    e: "emb anchor = Some ao" "emb sm = Some so" "emb tm = Some to" and
    l: "length ao = n" "length so = n" "length to = n"
    by (auto simp: has_embedding_def split: option.splits)
  from l obtain ss st1 where c1: "cached_similarities st anchor sm ao so = Inr (ss, st1)"
    using cached_similarities_returns [of ao so st anchor sm] by auto
  from l obtain ts st2 where c2: "cached_similarities st1 anchor tm ao to = Inr (ts, st2)"
    using cached_similarities_returns [of ao to st1 anchor tm] by auto
  from e c1 c2 show ?thesis
    by (simp add: triplet_step_def)
qed

lemma anchor_table_returns:
  assumes "has_embedding emb n anchor"
    and "list_all (\<lambda>(f, sm, tm). has_embedding emb n sm \<and> has_embedding emb n tm) ts"
  shows "\<exists>rows st'. anchor_table emb anchor st ts = Inr (rows, st')"
  using assms(2)
proof (induction ts arbitrary: st)
  case Nil
  then show ?case by simp
next
  case (Cons t ts)
  obtain f sm tm where t: "t = (f, sm, tm)" by (cases t) auto
  with Cons.prems have h: "has_embedding emb n sm" "has_embedding emb n tm"
    and rest: "list_all (\<lambda>(f, sm, tm). has_embedding emb n sm \<and> has_embedding emb n tm) ts"
    by simp_all
  from triplet_step_returns [OF assms(1) h]
  obtain row st1 where s: "triplet_step emb anchor st t = Inr (row, st1)"
    using t by blast
  from Cons.IH [OF rest]
  obtain rows st2 where r: "anchor_table emb anchor st1 ts = Inr (rows, st2)"
    by blast
  from s r show ?case by simp
qed

lemma anchor_loop_returns:
  "triplets_wf emb n images \<Longrightarrow> \<exists>tables st'. anchor_loop emb st images = Inr (tables, st')"
proof (induction images arbitrary: st)
  case Nil
  then show ?case by simp
next
  case (Cons im images)
  obtain anchor ts where im: "im = (anchor, ts)" by (cases im) auto
  with Cons.prems have a: "has_embedding emb n anchor"
    and t: "list_all (\<lambda>(f, sm, tm). has_embedding emb n sm \<and> has_embedding emb n tm) ts"
    and rest: "triplets_wf emb n images"
    by (simp_all add: triplets_wf_def)
  from anchor_table_returns [OF a t]
  obtain rows st1 where s: "anchor_table emb anchor st ts = Inr (rows, st1)"
    by blast
  from Cons.IH [OF rest]
  obtain tables st2 where r: "anchor_loop emb st1 images = Inr (tables, st2)"
    by blast
  from s r im show ?case by simp
qed

lemma triplets_cache_run:
  assumes run: "triplets embeddings all_triplets = Inr (tables, st)"
  shows "cache_ok st \<and>
         (\<forall>(anchor, rows)\<in>set tables. \<forall>row\<in>set rows. row_cached st anchor row)"
proof -
  from run have "anchor_loop embeddings (Map.empty, []) all_triplets = Inr (tables, st)"
    by (simp add: triplets_def)
  from anchor_loop_extends [OF cache_ok_empty this]
  show ?thesis
    by (simp add: extends_def)
qed

text \<open>
  C5. In a run of the triplet engine no unordered pair is computed twice (the log of
  computations holds each unordered pair at most once, and its pairs are exactly the keys
  of the cache); every row written holds, for both of its legs, the triple the cache
  holds for that pair; a lookup of a cached pair returns the same triple under \<open>(a, b)\<close>
  and under \<open>(b, a)\<close> and leaves the cache and the log unchanged. The run returns when
  every image of the triplets has an embedding and all embeddings have one length.
\<close>

theorem cache_symmetric_and_once:
  "(triplets_wf embeddings n all_triplets \<longrightarrow>
      (\<exists>tables st. triplets embeddings all_triplets = Inr (tables, st))) \<and>
   (triplets embeddings all_triplets = Inr (tables, st) \<longrightarrow>
      distinct (map unordered (snd st)) \<and>
      dom (fst st) = set (snd st) \<and>
      (\<forall>(anchor, rows)\<in>set tables. \<forall>row\<in>set rows. row_cached st anchor row) \<and>
      (\<forall>a b. cache_lookup st a b = cache_lookup st b a) \<and>
      (\<forall>a b v x y. cache_lookup st a b = Some v \<longrightarrow>
         cached_similarities st a b x y = Inr (v, st) \<and>
         cached_similarities st b a y x = Inr (v, st)))"
proof (intro conjI impI)
  assume "triplets_wf embeddings n all_triplets"
  then show "\<exists>tables st. triplets embeddings all_triplets = Inr (tables, st)"
    unfolding triplets_def by (rule anchor_loop_returns)
next
  assume run: "triplets embeddings all_triplets = Inr (tables, st)"
  from triplets_cache_run [OF run] have ok: "cache_ok st" ..
  then show "distinct (map unordered (snd st))" "dom (fst st) = set (snd st)"
    by (simp_all add: cache_ok_def)
  from triplets_cache_run [OF run]
  show "\<forall>(anchor, rows)\<in>set tables. \<forall>row\<in>set rows. row_cached st anchor row" ..
  show "\<forall>a b. cache_lookup st a b = cache_lookup st b a"
    using cache_lookup_sym [OF ok] by blast
  show "\<forall>a b v x y. cache_lookup st a b = Some v \<longrightarrow>
         cached_similarities st a b x y = Inr (v, st) \<and>
         cached_similarities st b a y x = Inr (v, st)"
  proof (intro allI impI)
    fix a b v x y
    assume h: "cache_lookup st a b = Some v"
    then have "cache_lookup st b a = Some v"
      using cache_lookup_sym [OF ok, of a b] by simp
    with h show "cached_similarities st a b x y = Inr (v, st) \<and>
         cached_similarities st b a y x = Inr (v, st)"
      by (simp add: cached_hit)
  qed
qed

lemma example_triplets_wf: "triplets_wf example_embeddings 2 example_triplets"
  by (simp add: triplets_wf_def example_triplets_def example_embeddings_def has_embedding_def)

lemma example_triplets_log:
  "triplets example_embeddings example_triplets = Inr (tables, st) \<Longrightarrow>
     snd st = [(''a.png'', ''b.png''), (''a.png'', ''c.png''), (''b.png'', ''c.png'')]"
  by (auto simp: triplets_def example_triplets_def example_embeddings_def triplet_step_def
      cached_similarities_def similarities_def split: sum.splits prod.splits if_splits)

theorem cache_symmetric_and_once_witness:
  "triplets_wf example_embeddings 2 example_triplets \<and>
   (\<exists>tables st. triplets example_embeddings example_triplets = Inr (tables, st) \<and>
      snd st = [(''a.png'', ''b.png''), (''a.png'', ''c.png''), (''b.png'', ''c.png'')] \<and>
      distinct (map unordered (snd st)) \<and>
      cache_lookup st ''b.png'' ''a.png'' = cache_lookup st ''a.png'' ''b.png'')"
proof -
  from cache_symmetric_and_once [of example_embeddings 2 example_triplets] example_triplets_wf
  obtain tables st where run: "triplets example_embeddings example_triplets = Inr (tables, st)"
    by blast
  from cache_symmetric_and_once [of example_embeddings 2 example_triplets tables st] run
  have "distinct (map unordered (snd st))"
    and "\<forall>a b. cache_lookup st a b = cache_lookup st b a"
    by blast+
  with run example_triplets_log [OF run] example_triplets_wf show ?thesis
    by blast
qed

subsection \<open>Complementary indicators and the similarity totals\<close>

lemma read_written: "read_indicators (written_columns i) = Inr i"
  by (simp add: read_indicators_def written_columns_def column_def)

lemma accumulate_written:
  "accumulate f (map written_columns is) s = Inr (fold f is s)"
  by (induction "is" arbitrary: s) (simp_all add: read_written)

lemma fold_add_num_rows:
  "num_rows (fold add_indicators is s) = num_rows s + int (length is)"
  by (induction "is" arbitrary: s) (simp_all add: add_indicators_def)

lemma fold_add_dot:
  "\<forall>i\<in>set is. complementary (shape_dot_closer i) (texture_dot_closer i) \<Longrightarrow>
   sum_shape_dot (fold add_indicators is s) + sum_texture_dot (fold add_indicators is s)
     = sum_shape_dot s + sum_texture_dot s + int (length is)"
  by (induction "is" arbitrary: s) (auto simp: add_indicators_def complementary_def)

lemma fold_add_cos:
  "\<forall>i\<in>set is. complementary (shape_cos_closer i) (texture_cos_closer i) \<Longrightarrow>
   sum_shape_cos (fold add_indicators is s) + sum_texture_cos (fold add_indicators is s)
     = sum_shape_cos s + sum_texture_cos s + int (length is)"
  by (induction "is" arbitrary: s) (auto simp: add_indicators_def complementary_def)

lemma fold_add_ed:
  "\<forall>i\<in>set is. complementary (shape_ed_closer i) (texture_ed_closer i) \<Longrightarrow>
   sum_shape_ed (fold add_indicators is s) + sum_texture_ed (fold add_indicators is s)
     = sum_shape_ed s + sum_texture_ed s + int (length is)"
  by (induction "is" arbitrary: s) (auto simp: add_indicators_def complementary_def)

lemma fold_matrix_total:
  "\<forall>i\<in>set is. complementary (shape_dot_closer i) (texture_dot_closer i) \<and>
               complementary (shape_cos_closer i) (texture_cos_closer i) \<Longrightarrow>
   cells_total (fold matrix_step is m) = cells_total m + int (length is)"
  by (induction "is" arbitrary: m) (auto simp: matrix_step_total complementary_def)

lemma quotients_sum_one:
  "a + b = n \<Longrightarrow> n \<noteq> 0 \<Longrightarrow> real_of_int a / real_of_int n + real_of_int b / real_of_int n = 1"
proof -
  assume h: "a + b = n" "n \<noteq> 0"
  have "real_of_int a / real_of_int n + real_of_int b / real_of_int n
          = real_of_int (a + b) / real_of_int n"
    by (simp add: add_divide_distrib)
  with h show ?thesis by simp
qed

lemma proportions_complementary:
  assumes ne: "is \<noteq> []"
    and c: "\<forall>i\<in>set is. all_complementary i"
    and f: "similarity_tables files = map written_columns is"
  shows "\<exists>p. calculate_similarity_totals files False = Inr (Proportions p) \<and>
           prop_shape_dot p + prop_texture_dot p = 1 \<and>
           prop_shape_cos p + prop_texture_cos p = 1 \<and>
           prop_shape_ed p + prop_texture_ed p = 1"
proof -
  let ?z = "\<lparr>sum_shape_dot = 0, sum_shape_cos = 0, sum_shape_ed = 0,
             sum_texture_dot = 0, sum_texture_cos = 0, sum_texture_ed = 0,
             num_rows = 0\<rparr>"
  let ?s = "fold add_indicators is ?z"
  have n: "num_rows ?s = int (length is)"
    by (simp add: fold_add_num_rows)
  with ne have n0: "num_rows ?s \<noteq> 0" by simp
  have d: "sum_shape_dot ?s + sum_texture_dot ?s = num_rows ?s"
    using c by (simp add: fold_add_dot n all_complementary_def)
  have co: "sum_shape_cos ?s + sum_texture_cos ?s = num_rows ?s"
    using c by (simp add: fold_add_cos n all_complementary_def)
  have e: "sum_shape_ed ?s + sum_texture_ed ?s = num_rows ?s"
    using c by (simp add: fold_add_ed n all_complementary_def)
  have run: "calculate_similarity_totals files False = Inr (Proportions
      \<lparr>prop_shape_dot = real_of_int (sum_shape_dot ?s) / real_of_int (num_rows ?s),
       prop_shape_cos = real_of_int (sum_shape_cos ?s) / real_of_int (num_rows ?s),
       prop_shape_ed = real_of_int (sum_shape_ed ?s) / real_of_int (num_rows ?s),
       prop_texture_dot = real_of_int (sum_texture_dot ?s) / real_of_int (num_rows ?s),
       prop_texture_cos = real_of_int (sum_texture_cos ?s) / real_of_int (num_rows ?s),
       prop_texture_ed = real_of_int (sum_texture_ed ?s) / real_of_int (num_rows ?s)\<rparr>)"
    using n0 by (simp add: calculate_similarity_totals_def f accumulate_written truediv_def)
  show ?thesis
    using run quotients_sum_one [OF d n0] quotients_sum_one [OF co n0]
      quotients_sum_one [OF e n0]
    by simp
qed

lemma matrix_complementary:
  assumes c: "\<forall>i\<in>set is. all_complementary i"
    and f: "similarity_tables files = map written_columns is"
  shows "\<exists>m. calculate_similarity_totals files True = Inr (Matrix m) \<and>
           cells_total m = int (length is)"
proof -
  from c have "\<forall>i\<in>set is. complementary (shape_dot_closer i) (texture_dot_closer i) \<and>
               complementary (shape_cos_closer i) (texture_cos_closer i)"
    by (simp add: all_complementary_def)
  from fold_matrix_total [OF this, of "\<lparr>m0_0 = 0, m0_1 = 0, m1_0 = 0, m1_1 = 0\<rparr>"]
  show ?thesis
    by (simp add: calculate_similarity_totals_def f accumulate_written cells_total_def)
qed

lemma matrix_step_one_cell:
  assumes "complementary (shape_dot_closer i) (texture_dot_closer i)"
    and "complementary (shape_cos_closer i) (texture_cos_closer i)"
  shows "matrix_step i m = m\<lparr>m0_0 := m0_0 m + 1\<rparr> \<or> matrix_step i m = m\<lparr>m0_1 := m0_1 m + 1\<rparr> \<or>
         matrix_step i m = m\<lparr>m1_0 := m1_0 m + 1\<rparr> \<or> matrix_step i m = m\<lparr>m1_1 := m1_1 m + 1\<rparr>"
  using assms by (auto simp: matrix_step_def complementary_def)

lemma compare_results_complementary:
  "all_complementary (compare_results sd sc se td tc te)"
  by (simp add: compare_results_def complementary_def all_complementary_def)

lemma triplet_row_complementary: "all_complementary (indicators (triplet_row sm tm ss ts))"
  by (simp add: triplet_row_def compare_results_complementary split: prod.splits)

lemma fake_complementary:
  "complementary (fake_shape_dot_closer (fake_similarities a s t))
                 (fake_texture_dot_closer (fake_similarities a s t)) \<and>
   complementary (fake_shape_cos_closer (fake_similarities a s t))
                 (fake_texture_cos_closer (fake_similarities a s t))"
  by (simp add: fake_similarities_def complementary_def Let_def)

lemma triplet_step_row:
  "triplet_step emb anchor st t = Inr (row, st') \<Longrightarrow> all_complementary (indicators row)"
  by (auto simp: triplet_step_def triplet_row_complementary
      split: option.splits sum.splits prod.splits)

lemma anchor_table_rows:
  "anchor_table emb anchor st ts = Inr (rows, st') \<Longrightarrow>
     \<forall>row\<in>set rows. all_complementary (indicators row)"
proof (induction ts arbitrary: st rows)
  case Nil
  then show ?case by simp
next
  case (Cons t ts)
  from Cons.prems obtain row st1 rows' where
    s: "triplet_step emb anchor st t = Inr (row, st1)" and
    r: "anchor_table emb anchor st1 ts = Inr (rows', st')" and
    rows: "rows = row # rows'"
    by (auto split: sum.splits prod.splits)
  from triplet_step_row [OF s] Cons.IH [OF r] rows show ?case by simp
qed

lemma anchor_loop_rows:
  "anchor_loop emb st images = Inr (tables, st') \<Longrightarrow>
     \<forall>row\<in>set (concat (map snd tables)). all_complementary (indicators row)"
proof (induction images arbitrary: st tables)
  case Nil
  then show ?case by simp
next
  case (Cons im images)
  obtain anchor ts where im: "im = (anchor, ts)" by (cases im) auto
  from Cons.prems im obtain rows st1 tables' where
    s: "anchor_table emb anchor st ts = Inr (rows, st1)" and
    r: "anchor_loop emb st1 images = Inr (tables', st')" and
    tables: "tables = (anchor, rows) # tables'"
    by (auto split: sum.splits prod.splits)
  from anchor_table_rows [OF s] Cons.IH [OF r] tables show ?case by auto
qed

text \<open>
  C10. Every row written by the triplet engine has complementary indicator pairs for the
  dot product, the cosine similarity and the Euclidean distance (exactly one of the two
  is 1, the other 0), and so has every synthetic row for its two measures. Hence, when
  the tables read back are the rows the run wrote, proportions mode (on at least one
  row) returns shape and texture proportions that sum to 1 for each measure, in exact
  arithmetic, and matrix mode counts every row: the four cells sum to the number of
  rows, each row with complementary dot and cosine pairs adding 1 to exactly one cell.
\<close>

theorem indicators_complementary:
  assumes run: "triplets embeddings all_triplets = Inr (tables, st)"
    and files: "similarity_tables files =
                  map (\<lambda>row. written_columns (indicators row)) (concat (map snd tables))"
  shows "(\<forall>row\<in>set (concat (map snd tables)).
            complementary (shape_dot_closer (indicators row)) (texture_dot_closer (indicators row)) \<and>
            complementary (shape_cos_closer (indicators row)) (texture_cos_closer (indicators row)) \<and>
            complementary (shape_ed_closer (indicators row)) (texture_ed_closer (indicators row))) \<and>
         complementary (fake_shape_dot_closer (fake_similarities a s t))
                       (fake_texture_dot_closer (fake_similarities a s t)) \<and>
         complementary (fake_shape_cos_closer (fake_similarities a s t))
                       (fake_texture_cos_closer (fake_similarities a s t)) \<and>
         (concat (map snd tables) \<noteq> [] \<longrightarrow>
            (\<exists>p. calculate_similarity_totals files False = Inr (Proportions p) \<and>
               prop_shape_dot p + prop_texture_dot p = 1 \<and>
               prop_shape_cos p + prop_texture_cos p = 1 \<and>
               prop_shape_ed p + prop_texture_ed p = 1)) \<and>
         (\<exists>m. calculate_similarity_totals files True = Inr (Matrix m) \<and>
            cells_total m = int (length (concat (map snd tables)))) \<and>
         (complementary (shape_dot_closer i) (texture_dot_closer i) \<and>
          complementary (shape_cos_closer i) (texture_cos_closer i) \<longrightarrow>
            matrix_step i m = m\<lparr>m0_0 := m0_0 m + 1\<rparr> \<or> matrix_step i m = m\<lparr>m0_1 := m0_1 m + 1\<rparr> \<or>
            matrix_step i m = m\<lparr>m1_0 := m1_0 m + 1\<rparr> \<or> matrix_step i m = m\<lparr>m1_1 := m1_1 m + 1\<rparr>)"
proof -
  let ?is = "map indicators (concat (map snd tables))"
  from run have "anchor_loop embeddings (Map.empty, []) all_triplets = Inr (tables, st)"
    by (simp add: triplets_def)
  then have rows: "\<forall>row\<in>set (concat (map snd tables)). all_complementary (indicators row)"
    by (rule anchor_loop_rows)
  then have c: "\<forall>i\<in>set ?is. all_complementary i"
    by simp
  have f: "similarity_tables files = map written_columns ?is"
    using files by (simp add: comp_def)
  have p1: "\<forall>row\<in>set (concat (map snd tables)).
            complementary (shape_dot_closer (indicators row)) (texture_dot_closer (indicators row)) \<and>
            complementary (shape_cos_closer (indicators row)) (texture_cos_closer (indicators row)) \<and>
            complementary (shape_ed_closer (indicators row)) (texture_ed_closer (indicators row))"
    using rows unfolding all_complementary_def .
  have p3: "concat (map snd tables) \<noteq> [] \<longrightarrow>
            (\<exists>p. calculate_similarity_totals files False = Inr (Proportions p) \<and>
               prop_shape_dot p + prop_texture_dot p = 1 \<and>
               prop_shape_cos p + prop_texture_cos p = 1 \<and>
               prop_shape_ed p + prop_texture_ed p = 1)"
  proof
    assume "concat (map snd tables) \<noteq> []"
    then have "?is \<noteq> []" by simp
    then show "\<exists>p. calculate_similarity_totals files False = Inr (Proportions p) \<and>
               prop_shape_dot p + prop_texture_dot p = 1 \<and>
               prop_shape_cos p + prop_texture_cos p = 1 \<and>
               prop_shape_ed p + prop_texture_ed p = 1"
      using c f by (rule proportions_complementary)
  qed
  have p4: "\<exists>m. calculate_similarity_totals files True = Inr (Matrix m) \<and>
            cells_total m = int (length (concat (map snd tables)))"
    using matrix_complementary [OF c f] by simp
  show ?thesis
    using p1 fake_complementary [of a s t] p3 p4 matrix_step_one_cell [of i m]
    by blast
qed

lemma example_triplets_rows:
  "triplets example_embeddings example_triplets = Inr (tables, st) \<Longrightarrow>
     length (concat (map snd tables)) = 2"
  by (auto simp: triplets_def example_triplets_def example_embeddings_def triplet_step_def
      cached_similarities_def similarities_def split: sum.splits prod.splits if_splits)

theorem indicators_complementary_witness:
  "\<exists>tables st files.
     triplets example_embeddings example_triplets = Inr (tables, st) \<and>
     similarity_tables files =
       map (\<lambda>row. written_columns (indicators row)) (concat (map snd tables)) \<and>
     length (concat (map snd tables)) = 2 \<and>
     (\<exists>p. calculate_similarity_totals files False = Inr (Proportions p) \<and>
        prop_shape_dot p + prop_texture_dot p = 1 \<and>
        prop_shape_cos p + prop_texture_cos p = 1 \<and>
        prop_shape_ed p + prop_texture_ed p = 1) \<and>
     (\<exists>m. calculate_similarity_totals files True = Inr (Matrix m) \<and> cells_total m = 2)"
proof -
  from anchor_loop_returns [OF example_triplets_wf, of "(Map.empty, [])"]
  obtain tables st where run: "triplets example_embeddings example_triplets = Inr (tables, st)"
    by (auto simp: triplets_def)
  let ?files = "[(''a.csv'', map (\<lambda>row. written_columns (indicators row))
                     (concat (map snd tables)))]"
  have files: "similarity_tables ?files =
       map (\<lambda>row. written_columns (indicators row)) (concat (map snd tables))"
    by (simp add: similarity_tables_def)
  have two: "length (concat (map snd tables)) = 2"
    using run by (rule example_triplets_rows)
  have ne: "concat (map snd tables) \<noteq> []"
  proof
    assume e: "concat (map snd tables) = []"
    from two show False
      unfolding e by simp
  qed
  from indicators_complementary [OF run files] ne two
  have "(\<exists>p. calculate_similarity_totals ?files False = Inr (Proportions p) \<and>
        prop_shape_dot p + prop_texture_dot p = 1 \<and>
        prop_shape_cos p + prop_texture_cos p = 1 \<and>
        prop_shape_ed p + prop_texture_ed p = 1) \<and>
     (\<exists>m. calculate_similarity_totals ?files True = Inr (Matrix m) \<and> cells_total m = 2)"
    by simp
  with run files two show ?thesis
    by blast
qed

subsection \<open>Totals by shape category\<close>

lemma update_fresh: "k \<notin> fst ` set al \<Longrightarrow> AList.update k v al = al @ [(k, v)]"
  by (induction al) auto

lemma fold_update_zero:
  "distinct (xs @ ys) \<Longrightarrow>
   fold (\<lambda>shape d. AList.update shape 0 d) ys (dict_of xs (\<lambda>k. 0)) = dict_of (xs @ ys) (\<lambda>k. 0)"
proof (induction ys arbitrary: xs)
  case Nil
  then show ?case by simp
next
  case (Cons y ys)
  from Cons.prems have fresh: "y \<notin> fst ` set (dict_of xs (\<lambda>k. 0))"
    by (auto simp: dict_of_def)
  from Cons.prems have d: "distinct ((xs @ [y]) @ ys)"
    by simp
  have "AList.update y 0 (dict_of xs (\<lambda>k. 0)) = dict_of (xs @ [y]) (\<lambda>k. 0)"
    using update_fresh [OF fresh] by (simp add: dict_of_def)
  with Cons.IH [OF d] show ?case
    by simp
qed

lemma zero_dict_distinct: "distinct cats \<Longrightarrow> zero_dict cats = dict_of cats (\<lambda>k. 0)"
  using fold_update_zero [of "[]" cats] by (simp add: zero_dict_def dict_of_def)

lemma map_of_dict_of: "k \<in> set cats \<Longrightarrow> map_of (dict_of cats g) k = Some (g k)"
  by (induction cats) (auto simp: dict_of_def)

lemma update_dict_of:
  "distinct cats \<Longrightarrow> k \<in> set cats \<Longrightarrow>
   AList.update k x (dict_of cats g) = dict_of cats (g(k := x))"
  by (induction cats) (auto simp: dict_of_def)

lemma dict_add_dict_of:
  "distinct cats \<Longrightarrow> k \<in> set cats \<Longrightarrow>
   dict_add (dict_of cats g) k v = Inr (dict_of cats (\<lambda>s. g s + (if s = k then v else 0)))"
proof -
  assume h: "distinct cats" "k \<in> set cats"
  have "g(k := g k + v) = (\<lambda>s. g s + (if s = k then v else 0))"
    by auto
  with h show ?thesis
    by (simp add: dict_add_def map_of_dict_of update_dict_of)
qed

lemma count_row_dicts_of:
  assumes "distinct cats" and "shape \<in> set cats"
  shows "count_row shape row (dicts_of cats G) =
           Inr (dicts_of cats (\<lambda>col s. G col s +
                  (if s = shape then (if decisive row then col row else 0) else 0)))"
proof (cases "decisive row")
  case True
  then show ?thesis
    using assms by (simp add: count_row_def dicts_of_def dict_add_dict_of decisive_def)
next
  case False
  then show ?thesis
    by (simp add: count_row_def dicts_of_def decisive_def)
qed

lemma count_rows_dicts_of:
  assumes "distinct cats" and "shape \<in> set cats"
  shows "count_rows shape rows (dicts_of cats G) =
           Inr (dicts_of cats (\<lambda>col s. G col s +
                  (if s = shape then sum_list (map col (filter decisive rows)) else 0)))"
proof (induction rows arbitrary: G)
  case Nil
  have "(\<lambda>col s. G col s +
           (if s = shape then sum_list (map col (filter decisive [])) else 0)) = G"
    by (intro ext) simp
  then show ?case by simp
next
  case (Cons row rows)
  have "(\<lambda>col s. G col s + (if s = shape then (if decisive row then col row else 0) else 0) +
            (if s = shape then sum_list (map col (filter decisive rows)) else 0))
        = (\<lambda>col s. G col s +
            (if s = shape then sum_list (map col (filter decisive (row # rows))) else 0))"
    by (intro ext) simp
  then show ?case
    by (simp add: count_row_dicts_of [OF assms] Cons.IH)
qed

lemma count_files_dicts_of:
  assumes d: "distinct cats"
  shows "tables_wf cats files \<Longrightarrow>
         count_files files (dicts_of cats G) =
           Inr (dicts_of cats (\<lambda>col s. G col s + filtered_count col files s))"
proof (induction files arbitrary: G)
  case Nil
  then show ?case by (simp add: filtered_count_def)
next
  case (Cons table files)
  obtain filename rows where t: "table = (filename, rows)" by (cases table) auto
  from Cons.prems have rest: "tables_wf cats files"
    by (simp add: tables_wf_def)
  show ?case
  proof (cases "skipped filename")
    case True
    then have "\<And>col s. table_count col s table = 0"
      by (simp add: table_count_def t split: list.splits)
    then show ?thesis
      using True t Cons.IH [OF rest] by (simp add: filtered_count_def)
  next
    case False
    with Cons.prems t obtain first others where
      rows: "rows = first # others" and mem: "row_shape first \<in> set cats"
      by (auto simp: tables_wf_def split: list.splits)
    have tc: "\<And>col s. table_count col s table =
                (if s = row_shape first then sum_list (map col (filter decisive rows)) else 0)"
      using False by (auto simp: table_count_def t rows)
    have "(\<lambda>col s. G col s +
             (if s = row_shape first then sum_list (map col (filter decisive rows)) else 0) +
             filtered_count col files s)
          = (\<lambda>col s. G col s + filtered_count col (table # files) s)"
      by (intro ext) (simp add: filtered_count_def tc)
    then show ?thesis
      using False t rows count_rows_dicts_of [OF d mem, of rows G] Cons.IH [OF rest]
      by simp
  qed
qed

lemma category_row_dicts_of:
  "shape \<in> set cats \<Longrightarrow> category_row (dicts_of cats G) shape = Inr (expected_row G shape)"
  by (simp add: category_row_def dicts_of_def dict_get_def map_of_dict_of expected_row_def)

lemma index_of_distinct:
  "distinct cats \<Longrightarrow> i < length cats \<Longrightarrow> index_of cats (cats ! i) = Some i"
proof (induction cats arbitrary: i)
  case Nil
  then show ?case by simp
next
  case (Cons c cats)
  show ?case
  proof (cases i)
    case 0
    then show ?thesis by simp
  next
    case (Suc j)
    with Cons.prems have "cats ! j \<in> set cats" "c \<notin> set cats"
      by simp_all
    then have "c \<noteq> cats ! j" by auto
    with Suc Cons show ?thesis by simp
  qed
qed

lemma write_rows_dicts_of:
  assumes d: "distinct cats"
  shows "set shapes \<subseteq> set cats \<Longrightarrow> length res = length cats + 1 \<Longrightarrow>
         \<exists>res'. write_rows cats (dicts_of cats G) shapes res = Inr res' \<and>
           length res' = length res \<and>
           (\<forall>j<length res. res' ! j =
              (if j < length cats \<and> cats ! j \<in> set shapes
               then Some (expected_row G (cats ! j)) else res ! j))"
proof (induction shapes arbitrary: res)
  case Nil
  then show ?case by simp
next
  case (Cons shape shapes)
  from Cons.prems have mem: "shape \<in> set cats" and sub: "set shapes \<subseteq> set cats"
    by simp_all
  from mem obtain i where i: "i < length cats" "cats ! i = shape"
    by (auto simp: in_set_conv_nth)
  with d have idx: "index_of cats shape = Some i"
    using index_of_distinct by blast
  let ?res1 = "res[i := Some (expected_row G shape)]"
  have len1: "length ?res1 = length cats + 1"
    using Cons.prems by simp
  from Cons.IH [OF sub len1] obtain res' where
    w: "write_rows cats (dicts_of cats G) shapes ?res1 = Inr res'" and
    l: "length res' = length ?res1" and
    n: "\<forall>j<length ?res1. res' ! j =
              (if j < length cats \<and> cats ! j \<in> set shapes
               then Some (expected_row G (cats ! j)) else ?res1 ! j)"
    by blast
  have run: "write_rows cats (dicts_of cats G) (shape # shapes) res = Inr res'"
    using idx w by (simp add: list_index_def category_row_dicts_of [OF mem])
  have "res' ! j = (if j < length cats \<and> cats ! j \<in> set (shape # shapes)
               then Some (expected_row G (cats ! j)) else res ! j)"
    if j: "j < length res" for j
  proof (cases "j = i")
    case True
    with n j i Cons.prems(2) show ?thesis by simp
  next
    case False
    have "cats ! j \<noteq> shape" if "j < length cats"
      using d i False that by (auto simp: nth_eq_iff_index_eq)
    with n j False show ?thesis by auto
  qed
  with run l show ?case by simp
qed

lemma dict_sum_dict_of: "dict_sum (dict_of cats g) = sum_list (map g cats)"
  by (simp add: dict_sum_def dict_of_def comp_def)

lemma calculate_totals_result:
  assumes d: "distinct cats" and wf: "tables_wf cats files"
  shows "calculate_totals cats files =
           Inr (map (\<lambda>s. Some (expected_row (\<lambda>col. filtered_count col files) s)) cats @
                [Some (total_row (dicts_of cats (\<lambda>col. filtered_count col files)))])"
proof -
  let ?G = "\<lambda>col. filtered_count col files"
  let ?c = "dicts_of cats ?G"
  have z: "\<lparr>shape_dict = zero_dict cats, texture_dict = zero_dict cats,
            neither_dict = zero_dict cats, restricted_shape_dict = zero_dict cats,
            restricted_texture_dict = zero_dict cats\<rparr> = dicts_of cats (\<lambda>col s. 0)"
    by (simp add: zero_dict_distinct [OF d] dicts_of_def)
  have cf: "count_files files (dicts_of cats (\<lambda>col s. 0)) = Inr ?c"
    using count_files_dicts_of [OF d wf, of "\<lambda>col s. 0"] by simp
  from write_rows_dicts_of [OF d, of cats "replicate (length cats + 1) None" ?G]
  obtain res' where
    w: "write_rows cats ?c cats (replicate (length cats + 1) None) = Inr res'" and
    l: "length res' = length cats + 1" and
    n: "\<forall>j<length cats + 1. res' ! j =
              (if j < length cats \<and> cats ! j \<in> set cats
               then Some (expected_row ?G (cats ! j))
               else replicate (length cats + 1) None ! j)"
    by auto
  have "res'[length cats := Some (total_row ?c)] =
          map (\<lambda>s. Some (expected_row ?G s)) cats @ [Some (total_row ?c)]"
  proof (rule nth_equalityI)
    show "length (res'[length cats := Some (total_row ?c)]) =
            length (map (\<lambda>s. Some (expected_row ?G s)) cats @ [Some (total_row ?c)])"
      using l by simp
  next
    fix j
    assume "j < length (res'[length cats := Some (total_row ?c)])"
    with l have j: "j < length cats + 1" by simp
    show "res'[length cats := Some (total_row ?c)] ! j =
            (map (\<lambda>s. Some (expected_row ?G s)) cats @ [Some (total_row ?c)]) ! j"
    proof (cases "j < length cats")
      case True
      with n j show ?thesis by (simp add: nth_append)
    next
      case False
      with j have "j = length cats" by simp
      with l show ?thesis by (simp add: nth_append)
    qed
  qed
  with z cf w show ?thesis
    by (simp add: calculate_totals_def Let_def)
qed

text \<open>
  C3. For a list of distinct categories and tables that each have a row whose shape is a
  category, the totals aggregation returns one row per category and a final row. In the
  row of a category each count is the sum of its column over the rows with differing
  restricted indicators of the tables of that shape, and Total Number Stimuli is
  shape + texture + neither of the row. Every count of the final row, Total Number
  Stimuli included, is the sum of that count over the rows of the categories.
\<close>

theorem totals_by_category:
  assumes d: "distinct cats" and wf: "tables_wf cats files"
  shows "\<exists>per_category total.
     calculate_totals cats files = Inr (map Some per_category @ [Some total]) \<and>
     length per_category = length cats \<and>
     (\<forall>i<length cats.
        shape_category (per_category ! i) = cats ! i \<and>
        number_shape_decisions (per_category ! i)
          = filtered_count shape_decision files (cats ! i) \<and>
        number_texture_decisions (per_category ! i)
          = filtered_count texture_decision files (cats ! i) \<and>
        number_neither (per_category ! i)
          = filtered_count neither_decision files (cats ! i) \<and>
        number_restricted_shape_decisions (per_category ! i)
          = filtered_count restricted_shape_decision files (cats ! i) \<and>
        number_restricted_texture_decisions (per_category ! i)
          = filtered_count restricted_texture_decision files (cats ! i) \<and>
        total_number_stimuli (per_category ! i)
          = number_shape_decisions (per_category ! i) +
            number_texture_decisions (per_category ! i) +
            number_neither (per_category ! i)) \<and>
     shape_category total = ''total'' \<and>
     number_shape_decisions total = sum_list (map number_shape_decisions per_category) \<and>
     number_texture_decisions total = sum_list (map number_texture_decisions per_category) \<and>
     number_neither total = sum_list (map number_neither per_category) \<and>
     number_restricted_shape_decisions total
       = sum_list (map number_restricted_shape_decisions per_category) \<and>
     number_restricted_texture_decisions total
       = sum_list (map number_restricted_texture_decisions per_category) \<and>
     total_number_stimuli total = sum_list (map total_number_stimuli per_category)"
proof -
  let ?G = "\<lambda>col. filtered_count col files"
  let ?per = "map (expected_row ?G) cats"
  let ?total = "total_row (dicts_of cats ?G)"
  have run: "calculate_totals cats files = Inr (map Some ?per @ [Some ?total])"
    using calculate_totals_result [OF d wf] by (simp add: comp_def)
  have len: "length ?per = length cats"
    by simp
  have rows: "\<forall>i<length cats.
        shape_category (?per ! i) = cats ! i \<and>
        number_shape_decisions (?per ! i) = filtered_count shape_decision files (cats ! i) \<and>
        number_texture_decisions (?per ! i) = filtered_count texture_decision files (cats ! i) \<and>
        number_neither (?per ! i) = filtered_count neither_decision files (cats ! i) \<and>
        number_restricted_shape_decisions (?per ! i)
          = filtered_count restricted_shape_decision files (cats ! i) \<and>
        number_restricted_texture_decisions (?per ! i)
          = filtered_count restricted_texture_decision files (cats ! i) \<and>
        total_number_stimuli (?per ! i)
          = number_shape_decisions (?per ! i) + number_texture_decisions (?per ! i) +
            number_neither (?per ! i)"
    by (simp add: expected_row_def)
  have t0: "shape_category ?total = ''total''"
    by (simp add: total_row_def)
  have t1: "number_shape_decisions ?total = sum_list (map number_shape_decisions ?per)"
    by (simp add: total_row_def dicts_of_def dict_sum_dict_of expected_row_def comp_def)
  have t2: "number_texture_decisions ?total = sum_list (map number_texture_decisions ?per)"
    by (simp add: total_row_def dicts_of_def dict_sum_dict_of expected_row_def comp_def)
  have t3: "number_neither ?total = sum_list (map number_neither ?per)"
    by (simp add: total_row_def dicts_of_def dict_sum_dict_of expected_row_def comp_def)
  have t4: "number_restricted_shape_decisions ?total
              = sum_list (map number_restricted_shape_decisions ?per)"
    by (simp add: total_row_def dicts_of_def dict_sum_dict_of expected_row_def comp_def)
  have t5: "number_restricted_texture_decisions ?total
              = sum_list (map number_restricted_texture_decisions ?per)"
    by (simp add: total_row_def dicts_of_def dict_sum_dict_of expected_row_def comp_def)
  have t6: "total_number_stimuli ?total = sum_list (map total_number_stimuli ?per)"
    by (simp add: total_row_def dicts_of_def dict_sum_dict_of expected_row_def comp_def
        sum_list_addf)
  from run len rows t0 t1 t2 t3 t4 t5 t6 show ?thesis
    by blast
qed

lemma example_tables_wf: "tables_wf [''cat'', ''dog''] example_tables"
  by (simp add: tables_wf_def example_tables_def skipped_def)

lemma example_totals:
  "calculate_totals [''cat'', ''dog''] example_tables =
     Inr [Some \<lparr>shape_category = ''cat'', number_shape_decisions = 1,
                number_texture_decisions = 0, number_neither = 1,
                number_restricted_shape_decisions = 1,
                number_restricted_texture_decisions = 1, total_number_stimuli = 2\<rparr>,
          Some \<lparr>shape_category = ''dog'', number_shape_decisions = 0,
                number_texture_decisions = 1, number_neither = 0,
                number_restricted_shape_decisions = 0,
                number_restricted_texture_decisions = 1, total_number_stimuli = 1\<rparr>,
          Some \<lparr>shape_category = ''total'', number_shape_decisions = 1,
                number_texture_decisions = 1, number_neither = 1,
                number_restricted_shape_decisions = 1,
                number_restricted_texture_decisions = 2, total_number_stimuli = 3\<rparr>]"
  by (simp add: calculate_totals_def example_tables_def skipped_def zero_dict_def
      count_row_def dict_add_def list_index_def category_row_def dict_get_def
      total_row_def dict_sum_def)

theorem totals_by_category_witness:
  "distinct [''cat'', ''dog''] \<and> tables_wf [''cat'', ''dog''] example_tables \<and>
   (\<exists>per_category total.
      calculate_totals [''cat'', ''dog''] example_tables
        = Inr (map Some per_category @ [Some total]) \<and>
      length per_category = 2 \<and>
      total_number_stimuli total = sum_list (map total_number_stimuli per_category) \<and>
      total_number_stimuli total = 3 \<and>
      number_restricted_texture_decisions total = 2)"
proof -
  have d: "distinct [''cat'', ''dog'']"
    by simp
  from totals_by_category [OF d example_tables_wf]
  obtain per_category total where
    run: "calculate_totals [''cat'', ''dog''] example_tables
            = Inr (map Some per_category @ [Some total])" and
    len: "length per_category = length [''cat'', ''dog'']" and
    tot: "total_number_stimuli total = sum_list (map total_number_stimuli per_category)"
    by blast
  from run have "last (map Some per_category @ [Some total]) =
      last [Some \<lparr>shape_category = ''cat'', number_shape_decisions = 1,
                number_texture_decisions = 0, number_neither = 1,
                number_restricted_shape_decisions = 1,
                number_restricted_texture_decisions = 1, total_number_stimuli = 2\<rparr>,
          Some \<lparr>shape_category = ''dog'', number_shape_decisions = 0,
                number_texture_decisions = 1, number_neither = 0,
                number_restricted_shape_decisions = 0,
                number_restricted_texture_decisions = 1, total_number_stimuli = 1\<rparr>,
          Some \<lparr>shape_category = ''total'', number_shape_decisions = 1,
                number_texture_decisions = 1, number_neither = 1,
                number_restricted_shape_decisions = 1,
                number_restricted_texture_decisions = 2, total_number_stimuli = 3\<rparr>]"
    unfolding example_totals by simp
  then have total: "total = \<lparr>shape_category = ''total'', number_shape_decisions = 1,
                number_texture_decisions = 1, number_neither = 1,
                number_restricted_shape_decisions = 1,
                number_restricted_texture_decisions = 2, total_number_stimuli = 3\<rparr>"
    by simp
  from d example_tables_wf run len tot total show ?thesis
    by auto
qed

subsection \<open>The null model: similarities\<close>

lemma norm2_3_4: "norm2 [3, 4] = 5"
proof -
  have "sqrt 25 = 5"
    by (rule real_sqrt_unique) simp_all
  then show ?thesis
    by (simp add: norm2_def)
qed

lemma norm2_4_3: "norm2 [4, 3] = 5"
proof -
  have "sqrt 25 = 5"
    by (rule real_sqrt_unique) simp_all
  then show ?thesis
    by (simp add: norm2_def)
qed

text \<open>
  C6 (as the code has it). For a synthetic triplet of vectors of one length, the
  generator's two dot products are the engine's, and its dot indicators are the engine's
  (the same strict comparison, a tie going to texture); its cosine indicators are set
  from the two cosine values it stores by strict greater-than and are complementary; it
  computes no Euclidean distance, and the row it writes has no Euclidean indicator column.
\<close>

theorem fake_similarities_dot_as_engine:
  assumes "length s = length a" and "length t = length a"
  shows "similarities a s = Inr (fake_shape_dot (fake_similarities a s t), cosx a s, cdist s a) \<and>
         similarities a t = Inr (fake_texture_dot (fake_similarities a s t), cosx a t, cdist t a) \<and>
         fake_shape_dot_closer (fake_similarities a s t) =
           shape_dot_closer (compare_results
             (fake_shape_dot (fake_similarities a s t)) (cosx a s) (cdist s a)
             (fake_texture_dot (fake_similarities a s t)) (cosx a t) (cdist t a)) \<and>
         fake_texture_dot_closer (fake_similarities a s t) =
           texture_dot_closer (compare_results
             (fake_shape_dot (fake_similarities a s t)) (cosx a s) (cdist s a)
             (fake_texture_dot (fake_similarities a s t)) (cosx a t) (cdist t a)) \<and>
         fake_shape_cos_closer (fake_similarities a s t) =
           (if float_gt (fake_shape_cos (fake_similarities a s t))
                        (fake_texture_cos (fake_similarities a s t)) then 1 else 0) \<and>
         fake_texture_cos_closer (fake_similarities a s t) =
           1 - fake_shape_cos_closer (fake_similarities a s t) \<and>
         col_shape_ed_closer (fake_written_columns (fake_similarities a s t)) = None \<and>
         col_texture_ed_closer (fake_written_columns (fake_similarities a s t)) = None \<and>
         col_shape_dot_closer (fake_written_columns (fake_similarities a s t))
           = Some (fake_shape_dot_closer (fake_similarities a s t)) \<and>
         col_texture_dot_closer (fake_written_columns (fake_similarities a s t))
           = Some (fake_texture_dot_closer (fake_similarities a s t))"
  using assms
  by (simp add: similarities_def fake_similarities_def Let_def compare_results_def
      fake_written_columns_def)

text \<open>
  The claim as stated fails. For the synthetic vectors anchor (3, 4), shape match (3, 4)
  and texture match (4, 3), the engine's cosine similarities are 1 and 24/25 and its
  shape cosine indicator is 1, while the generator stores 0 and 1/25 and sets its shape
  cosine indicator to 0; the engine writes a Euclidean indicator, the generator's table
  has no such column, and reading the six indicators from its row raises KeyError.
\<close>

theorem fake_similarities_counterexample:
  "similarities [3, 4] [3, 4] = Inr (25, 1, 0) \<and>
   similarities [3, 4] [4, 3] = Inr (24, 24 / 25, sqrt 2) \<and>
   fake_shape_cos (fake_similarities [3, 4] [3, 4] [4, 3]) = Some 0 \<and>
   fake_texture_cos (fake_similarities [3, 4] [3, 4] [4, 3]) = Some (1 / 25) \<and>
   shape_cos_closer (compare_results 25 1 0 24 (24 / 25) (sqrt 2)) = 1 \<and>
   fake_shape_cos_closer (fake_similarities [3, 4] [3, 4] [4, 3]) = 0 \<and>
   col_shape_ed_closer (written_columns (compare_results 25 1 0 24 (24 / 25) (sqrt 2))) = Some 1 \<and>
   col_shape_ed_closer (fake_written_columns (fake_similarities [3, 4] [3, 4] [4, 3])) = None \<and>
   read_indicators (fake_written_columns (fake_similarities [3, 4] [3, 4] [4, 3])) = Inl KeyError"
proof -
  have d1: "dot [3, 4] [3, 4] = 25" and d2: "dot [3, 4] [4, 3] = 24"
    by (simp_all add: dot_def)
  have c1: "cosx [3, 4] [3, 4] = 1" and c2: "cosx [3, 4] [4, 3] = 24 / 25"
    by (simp_all add: cosx_def d1 d2 norm2_3_4 norm2_4_3)
  have e1: "cdist [3, 4] [3, 4] = 0" and e2: "cdist [4, 3] [3, 4] = sqrt 2"
    by (simp_all add: cdist_def norm2_def)
  have s1: "similarities [3, 4] [3, 4] = Inr (25, 1, 0)"
    by (simp add: similarities_def d1 c1 e1)
  have s2: "similarities [3, 4] [4, 3] = Inr (24, 24 / 25, sqrt 2)"
    by (simp add: similarities_def d2 c2 e2)
  have f1: "cosine_distance [3, 4] [3, 4] = Some 0"
    and f2: "cosine_distance [3, 4] [4, 3] = Some (1 / 25)"
    by (simp_all add: cosine_distance_def d1 d2 norm2_3_4 norm2_4_3)
  have pos: "0 < sqrt 2"
    by simp
  show ?thesis
    using pos
    by (simp add: s1 s2 fake_similarities_def Let_def f1 f2 float_gt_def compare_results_def
        written_columns_def fake_written_columns_def read_indicators_def column_def)
qed

theorem fake_similarities_dot_as_engine_witness:
  "length [3, 4 :: real] = length [3, 4 :: real] \<and> length [4, 3 :: real] = length [3, 4 :: real] \<and>
   similarities [3, 4] [3, 4]
     = Inr (fake_shape_dot (fake_similarities [3, 4] [3, 4] [4, 3]), cosx [3, 4] [3, 4],
            cdist [3, 4] [3, 4]) \<and>
   fake_shape_dot (fake_similarities [3, 4] [3, 4] [4, 3]) = 25 \<and>
   fake_shape_dot_closer (fake_similarities [3, 4] [3, 4] [4, 3]) = 1 \<and>
   col_shape_ed_closer (fake_written_columns (fake_similarities [3, 4] [3, 4] [4, 3])) = None"
proof -
  have l: "length [3, 4 :: real] = length [3, 4 :: real]"
    "length [4, 3 :: real] = length [3, 4 :: real]"
    by simp_all
  have d: "fake_shape_dot (fake_similarities [3, 4] [3, 4] [4, 3]) = 25"
    "fake_shape_dot_closer (fake_similarities [3, 4] [3, 4] [4, 3]) = 1"
    by (simp_all add: fake_similarities_def Let_def dot_def)
  from fake_similarities_dot_as_engine [OF l] d show ?thesis
    by simp
qed

subsection \<open>Closer indicators of the rows of a run\<close>
















subsection \<open>Similarity totals, matrix mode\<close>

text \<open>
  C7 (as the code has it). In matrix mode a row adds 1 to exactly one cell whenever one
  of its two dot indicators is 1 and one of its two cosine indicators is 1, also when the
  two winners disagree: dot shape with cosine texture goes to \<open>m1_0\<close>, dot texture with
  cosine shape to \<open>m0_1\<close>. A row is counted in no cell exactly when neither dot indicator is
  1 or neither cosine indicator is 1. A row of the triplet engine always has both
  winners, and for a table of rows that have both the four cells sum to the number of
  rows.
\<close>

theorem matrix_counts_every_winner_pair:
  "cells_total (matrix_step i m) = cells_total m +
     (if (shape_dot_closer i = 1 \<or> texture_dot_closer i = 1) \<and>
         (shape_cos_closer i = 1 \<or> texture_cos_closer i = 1) then 1 else 0) \<and>
   (shape_dot_closer i = 1 \<and> shape_cos_closer i \<noteq> 1 \<and> texture_cos_closer i = 1 \<longrightarrow>
      matrix_step i m = m\<lparr>m1_0 := m1_0 m + 1\<rparr>) \<and>
   (shape_dot_closer i \<noteq> 1 \<and> texture_dot_closer i = 1 \<and> shape_cos_closer i = 1 \<longrightarrow>
      matrix_step i m = m\<lparr>m0_1 := m0_1 m + 1\<rparr>) \<and>
   (shape_dot_closer i = 1 \<and> shape_cos_closer i = 1 \<longrightarrow>
      matrix_step i m = m\<lparr>m0_0 := m0_0 m + 1\<rparr>) \<and>
   (shape_dot_closer i \<noteq> 1 \<and> texture_dot_closer i = 1 \<and> shape_cos_closer i \<noteq> 1 \<and>
    texture_cos_closer i = 1 \<longrightarrow>
      matrix_step i m = m\<lparr>m1_1 := m1_1 m + 1\<rparr>) \<and>
   (matrix_step i m = m \<longleftrightarrow>
      \<not> ((shape_dot_closer i = 1 \<or> texture_dot_closer i = 1) \<and>
         (shape_cos_closer i = 1 \<or> texture_cos_closer i = 1))) \<and>
   cells_total (matrix_step (compare_results sd sc se td tc te) m) = cells_total m + 1 \<and>
   (similarity_tables files = map written_columns is \<and>
    (\<forall>i\<in>set is. (shape_dot_closer i = 1 \<or> texture_dot_closer i = 1) \<and>
                  (shape_cos_closer i = 1 \<or> texture_cos_closer i = 1)) \<longrightarrow>
      (\<exists>mat. calculate_similarity_totals files True = Inr (Matrix mat) \<and>
         cells_total mat = int (length is)))"
proof -
  have total: "cells_total (matrix_step i m) = cells_total m +
     (if (shape_dot_closer i = 1 \<or> texture_dot_closer i = 1) \<and>
         (shape_cos_closer i = 1 \<or> texture_cos_closer i = 1) then 1 else 0)"
    by (rule matrix_step_total)
  have cells: "(shape_dot_closer i = 1 \<and> shape_cos_closer i \<noteq> 1 \<and> texture_cos_closer i = 1 \<longrightarrow>
      matrix_step i m = m\<lparr>m1_0 := m1_0 m + 1\<rparr>) \<and>
   (shape_dot_closer i \<noteq> 1 \<and> texture_dot_closer i = 1 \<and> shape_cos_closer i = 1 \<longrightarrow>
      matrix_step i m = m\<lparr>m0_1 := m0_1 m + 1\<rparr>) \<and>
   (shape_dot_closer i = 1 \<and> shape_cos_closer i = 1 \<longrightarrow>
      matrix_step i m = m\<lparr>m0_0 := m0_0 m + 1\<rparr>) \<and>
   (shape_dot_closer i \<noteq> 1 \<and> texture_dot_closer i = 1 \<and> shape_cos_closer i \<noteq> 1 \<and>
    texture_cos_closer i = 1 \<longrightarrow>
      matrix_step i m = m\<lparr>m1_1 := m1_1 m + 1\<rparr>)"
    by (simp add: matrix_step_def)
  have unchanged: "matrix_step i m = m \<longleftrightarrow>
      \<not> ((shape_dot_closer i = 1 \<or> texture_dot_closer i = 1) \<and>
         (shape_cos_closer i = 1 \<or> texture_cos_closer i = 1))"
  proof
    assume "matrix_step i m = m"
    then have "cells_total (matrix_step i m) = cells_total m" by simp
    with total show "\<not> ((shape_dot_closer i = 1 \<or> texture_dot_closer i = 1) \<and>
         (shape_cos_closer i = 1 \<or> texture_cos_closer i = 1))"
      by (simp split: if_splits)
  next
    assume "\<not> ((shape_dot_closer i = 1 \<or> texture_dot_closer i = 1) \<and>
         (shape_cos_closer i = 1 \<or> texture_cos_closer i = 1))"
    then show "matrix_step i m = m"
      by (auto simp: matrix_step_def)
  qed
  have engine: "cells_total (matrix_step (compare_results sd sc se td tc te) m) = cells_total m + 1"
    by (simp add: matrix_step_total compare_results_def)
  have tables: "similarity_tables files = map written_columns is \<and>
    (\<forall>i\<in>set is. (shape_dot_closer i = 1 \<or> texture_dot_closer i = 1) \<and>
                  (shape_cos_closer i = 1 \<or> texture_cos_closer i = 1)) \<longrightarrow>
      (\<exists>mat. calculate_similarity_totals files True = Inr (Matrix mat) \<and>
         cells_total mat = int (length is))"
  proof
    assume h: "similarity_tables files = map written_columns is \<and>
    (\<forall>i\<in>set is. (shape_dot_closer i = 1 \<or> texture_dot_closer i = 1) \<and>
                  (shape_cos_closer i = 1 \<or> texture_cos_closer i = 1))"
    then have w: "\<forall>i\<in>set is. (shape_dot_closer i = 1 \<or> texture_dot_closer i = 1) \<and>
                  (shape_cos_closer i = 1 \<or> texture_cos_closer i = 1)" ..
    have "cells_total (fold matrix_step is z) = cells_total z + int (length is)" for z
      using w by (induction "is" arbitrary: z) (simp_all add: matrix_step_total)
    from this [of "\<lparr>m0_0 = 0, m0_1 = 0, m1_0 = 0, m1_1 = 0\<rparr>"] h
    show "\<exists>mat. calculate_similarity_totals files True = Inr (Matrix mat) \<and>
         cells_total mat = int (length is)"
      by (simp add: calculate_similarity_totals_def accumulate_written cells_total_def)
  qed
  from total cells unchanged engine tables show ?thesis
    by blast
qed

text \<open>
  The claim as stated fails: the two combinations in which the dot winner and the cosine
  winner disagree are both counted. For a table of two rows, dot shape with cosine
  texture and dot texture with cosine shape, the matrix is 0, 1, 1, 0: the four cells sum
  to 2, the number of rows, and no row is dropped.
\<close>

theorem matrix_disagreeing_rows_counterexample:
  "calculate_similarity_totals
     [(''cat1-dog2.csv'',
       [\<lparr>col_shape_dot_closer = Some 1, col_shape_cos_closer = Some 0,
         col_shape_ed_closer = Some 0, col_texture_dot_closer = Some 0,
         col_texture_cos_closer = Some 1, col_texture_ed_closer = Some 1\<rparr>,
        \<lparr>col_shape_dot_closer = Some 0, col_shape_cos_closer = Some 1,
         col_shape_ed_closer = Some 1, col_texture_dot_closer = Some 1,
         col_texture_cos_closer = Some 0, col_texture_ed_closer = Some 0\<rparr>])] True
     = Inr (Matrix \<lparr>m0_0 = 0, m0_1 = 1, m1_0 = 1, m1_1 = 0\<rparr>) \<and>
   cells_total \<lparr>m0_0 = 0, m0_1 = 1, m1_0 = 1, m1_1 = 0\<rparr> = 2 \<and>
   length (similarity_tables
     [(''cat1-dog2.csv'',
       [\<lparr>col_shape_dot_closer = Some 1, col_shape_cos_closer = Some 0,
         col_shape_ed_closer = Some 0, col_texture_dot_closer = Some 0,
         col_texture_cos_closer = Some 1, col_texture_ed_closer = Some 1\<rparr>,
        \<lparr>col_shape_dot_closer = Some 0, col_shape_cos_closer = Some 1,
         col_shape_ed_closer = Some 1, col_texture_dot_closer = Some 1,
         col_texture_cos_closer = Some 0, col_texture_ed_closer = Some 0\<rparr>])]) = 2"
  by (simp add: calculate_similarity_totals_def similarity_tables_def read_indicators_def
      column_def matrix_step_def cells_total_def)

theorem matrix_counts_every_winner_pair_witness:
  "matrix_step \<lparr>shape_dot_closer = 1, texture_dot_closer = 0, shape_cos_closer = 0,
                texture_cos_closer = 1, shape_ed_closer = 0, texture_ed_closer = 1\<rparr>
     \<lparr>m0_0 = 0, m0_1 = 0, m1_0 = 0, m1_1 = 0\<rparr> = \<lparr>m0_0 = 0, m0_1 = 0, m1_0 = 1, m1_1 = 0\<rparr> \<and>
   matrix_step \<lparr>shape_dot_closer = 0, texture_dot_closer = 1, shape_cos_closer = 1,
                texture_cos_closer = 0, shape_ed_closer = 0, texture_ed_closer = 1\<rparr>
     \<lparr>m0_0 = 0, m0_1 = 0, m1_0 = 0, m1_1 = 0\<rparr> = \<lparr>m0_0 = 0, m0_1 = 1, m1_0 = 0, m1_1 = 0\<rparr> \<and>
   matrix_step \<lparr>shape_dot_closer = 1, texture_dot_closer = 0, shape_cos_closer = 0,
                texture_cos_closer = 0, shape_ed_closer = 0, texture_ed_closer = 1\<rparr>
     \<lparr>m0_0 = 0, m0_1 = 0, m1_0 = 0, m1_1 = 0\<rparr> = \<lparr>m0_0 = 0, m0_1 = 0, m1_0 = 0, m1_1 = 0\<rparr> \<and>
   (\<exists>mat. calculate_similarity_totals
       [(''cat1-dog2.csv'',
         map written_columns
           [\<lparr>shape_dot_closer = 1, texture_dot_closer = 0, shape_cos_closer = 0,
             texture_cos_closer = 1, shape_ed_closer = 0, texture_ed_closer = 1\<rparr>,
            \<lparr>shape_dot_closer = 0, texture_dot_closer = 1, shape_cos_closer = 1,
             texture_cos_closer = 0, shape_ed_closer = 0, texture_ed_closer = 1\<rparr>])] True
       = Inr (Matrix mat) \<and> cells_total mat = 2)"
proof -
  let ?a = "\<lparr>shape_dot_closer = 1, texture_dot_closer = 0, shape_cos_closer = 0,
             texture_cos_closer = 1, shape_ed_closer = 0, texture_ed_closer = 1\<rparr>"
  let ?b = "\<lparr>shape_dot_closer = 0, texture_dot_closer = 1, shape_cos_closer = 1,
             texture_cos_closer = 0, shape_ed_closer = 0, texture_ed_closer = 1\<rparr>"
  let ?c = "\<lparr>shape_dot_closer = 1, texture_dot_closer = 0, shape_cos_closer = 0,
             texture_cos_closer = 0, shape_ed_closer = 0, texture_ed_closer = 1\<rparr>"
  let ?z = "\<lparr>m0_0 = 0, m0_1 = 0, m1_0 = 0, m1_1 = 0\<rparr>"
  let ?files = "[(''cat1-dog2.csv'', map written_columns [?a, ?b])]"
  have f: "similarity_tables ?files = map written_columns [?a, ?b]"
    by (simp add: similarity_tables_def)
  have w: "\<forall>i\<in>set [?a, ?b]. (shape_dot_closer i = 1 \<or> texture_dot_closer i = 1) \<and>
                  (shape_cos_closer i = 1 \<or> texture_cos_closer i = 1)"
    by simp
  from matrix_counts_every_winner_pair [of ?a ?z 0 0 0 0 0 0 ?files "[?a, ?b]"] f w
  have t: "\<exists>mat. calculate_similarity_totals ?files True = Inr (Matrix mat) \<and>
         cells_total mat = int (length [?a, ?b])"
    by blast
  have a: "matrix_step ?a ?z = \<lparr>m0_0 = 0, m0_1 = 0, m1_0 = 1, m1_1 = 0\<rparr>"
    using matrix_counts_every_winner_pair [of ?a ?z 0 0 0 0 0 0 ?files "[?a, ?b]"] by simp
  have b: "matrix_step ?b ?z = \<lparr>m0_0 = 0, m0_1 = 1, m1_0 = 0, m1_1 = 0\<rparr>"
    using matrix_counts_every_winner_pair [of ?b ?z 0 0 0 0 0 0 ?files "[?a, ?b]"] by simp
  have c: "matrix_step ?c ?z = ?z"
    using matrix_counts_every_winner_pair [of ?c ?z 0 0 0 0 0 0 ?files "[?a, ?b]"] by simp
  from a b c t show ?thesis
    by simp
qed

subsection \<open>The null model: magnitudes\<close>

lemma sum_squares_nonneg: "0 \<le> sum_list (map (\<lambda>x. x * x) xs)"
  for xs :: "real list"
  by (induction xs) simp_all

lemma norm2_nonneg: "0 \<le> norm2 xs"
  by (simp add: norm2_def sum_squares_nonneg)

lemma sum_list_scaled_squares:
  "sum_list (map (\<lambda>x. (c * x) * (c * x)) l) = c * c * sum_list (map (\<lambda>x. x * x) l)"
  for c :: real
  by (induction l) (simp_all add: algebra_simps)

lemma norm2_scaled: "norm2 (map (\<lambda>x. c * x) l) = \<bar>c\<bar> * norm2 l"
proof -
  have "norm2 (map (\<lambda>x. c * x) l) = sqrt (c * c * sum_list (map (\<lambda>x. x * x) l))"
    by (simp add: norm2_def comp_def sum_list_scaled_squares)
  also have "\<dots> = sqrt (c * c) * sqrt (sum_list (map (\<lambda>x. x * x) l))"
    by (rule real_sqrt_mult)
  also have "sqrt (c * c) = \<bar>c\<bar>"
    by simp
  finally show ?thesis
    by (simp add: norm2_def)
qed

lemma rescale_exact:
  assumes "norm2 l \<noteq> 0" and "0 \<le> mag"
  shows "\<exists>new_l. rescale (\<lambda>x. x) norm2 mag l = Some new_l \<and> norm2 new_l = mag \<and>
           new_l = map (\<lambda>x. mag * x / norm2 l) l"
proof -
  let ?n = "norm2 l"
  from assms(1) norm2_nonneg [of l] have pos: "0 < ?n" by simp
  have "map (\<lambda>x. mag * x / ?n) l = map (\<lambda>x. (mag / ?n) * x) l"
    by simp
  then have "norm2 (map (\<lambda>x. mag * x / ?n) l) = \<bar>mag / ?n\<bar> * ?n"
    by (simp only: norm2_scaled)
  also have "\<dots> = mag"
    using pos assms(2) by simp
  finally show ?thesis
    using assms(1) by (simp add: rescale_def)
qed

lemma draw_loop_accepted:
  "\<not> mag < 0 \<Longrightarrow> draw_loop sample loc scale mag gs = Some (Inr (mag, gs))"
  by (cases gs) simp_all

lemma draw_loop_accepts:
  assumes sc: "0 \<le> scale"
  shows "mag < 0 \<Longrightarrow> \<forall>h\<in>set pre. sample loc scale h < 0 \<Longrightarrow> 0 \<le> sample loc scale g \<Longrightarrow>
         draw_loop sample loc scale mag (pre @ g # rest) = Some (Inr (sample loc scale g, rest))"
proof (induction pre arbitrary: mag)
  case Nil
  then show ?case
    using sc by (simp add: random_normal_def draw_loop_accepted)
next
  case (Cons h pre)
  from Cons.prems have neg: "sample loc scale h < 0"
    and rest: "\<forall>h\<in>set pre. sample loc scale h < 0"
    by simp_all
  from Cons.IH [OF neg rest Cons.prems(3)] Cons.prems(1) sc show ?case
    by (simp add: random_normal_def)
qed

lemma draw_loop_rejects:
  "0 \<le> scale \<Longrightarrow> mag < 0 \<Longrightarrow> \<forall>h\<in>set gs. sample loc scale h < 0 \<Longrightarrow>
   draw_loop sample loc scale mag gs = None"
  by (induction gs arbitrary: mag) (simp_all add: random_normal_def)

lemma draw_loop_raises:
  "scale < 0 \<Longrightarrow> mag < 0 \<Longrightarrow> gs \<noteq> [] \<Longrightarrow>
   draw_loop sample loc scale mag gs = Some (Inl ValueError)"
  by (cases gs) (simp_all add: random_normal_def)

lemma draw_loop_result:
  "draw_loop sample loc scale mag gs = Some (Inr (m, rest)) \<Longrightarrow> mag < 0 \<Longrightarrow>
   0 \<le> scale \<and> 0 \<le> m \<and>
   (\<exists>pre g. gs = pre @ g # rest \<and> (\<forall>h\<in>set pre. sample loc scale h < 0) \<and>
      m = sample loc scale g)"
proof (induction gs arbitrary: mag)
  case Nil
  then show ?case by simp
next
  case (Cons g gs)
  from Cons.prems have sc: "0 \<le> scale"
    by (auto simp: random_normal_def split: if_splits)
  with Cons.prems have step: "draw_loop sample loc scale (sample loc scale g) gs = Some (Inr (m, rest))"
    by (simp add: random_normal_def)
  show ?case
  proof (cases "sample loc scale g < 0")
    case True
    from Cons.IH [OF step True] obtain pre g' where
      "gs = pre @ g' # rest" "\<forall>h\<in>set pre. sample loc scale h < 0" "m = sample loc scale g'"
      "0 \<le> m"
      by blast
    with True have "g # gs = (g # pre) @ g' # rest \<and>
        (\<forall>h\<in>set (g # pre). sample loc scale h < 0) \<and> m = sample loc scale g'"
      by simp
    with sc \<open>0 \<le> m\<close> show ?thesis by blast
  next
    case False
    with step have "m = sample loc scale g" "rest = gs"
      by (simp_all add: draw_loop_accepted)
    with False sc have "0 \<le> m \<and> g # gs = [] @ g # rest \<and>
        (\<forall>h\<in>set []. sample loc scale h < 0) \<and> m = sample loc scale g"
      by simp
    with sc show ?thesis by blast
  qed
qed

lemma fold_magnitude_avg:
  "acc_avg (fold (magnitude_step fl nrm) es a)
     = foldl (\<lambda>s x. fl (s + x)) (acc_avg a) (map nrm es)"
  by (induction es arbitrary: a) (simp_all add: magnitude_step_def Let_def)

lemma fold_magnitude_num:
  "acc_num (fold (magnitude_step fl nrm) es a) = acc_num a + length es"
  by (induction es arbitrary: a) (simp_all add: magnitude_step_def Let_def)

lemma fold_magnitude_min:
  "acc_min (fold (magnitude_step fl nrm) es a) =
     (case acc_min a of
        None \<Rightarrow> (if es = [] then None else Some (Min (set (map nrm es))))
      | Some m \<Rightarrow> Some (Min (insert m (set (map nrm es)))))"
proof (induction es arbitrary: a)
  case Nil
  then show ?case by (simp split: option.splits)
next
  case (Cons e es)
  have step: "acc_min (magnitude_step fl nrm e a) =
                Some (case acc_min a of None \<Rightarrow> nrm e | Some m \<Rightarrow> min (nrm e) m)"
    by (simp add: magnitude_step_def Let_def min_def split: option.splits)
  show ?case
  proof (cases "acc_min a")
    case None
    with step Cons.IH [of "magnitude_step fl nrm e a"] show ?thesis
      by simp
  next
    case (Some m)
    have "Min (insert (min (nrm e) m) (set (map nrm es)))
            = Min (insert m (insert (nrm e) (set (map nrm es))))"
    proof (cases "es = []")
      case True
      then show ?thesis by (simp add: min.commute)
    next
      case False
      then show ?thesis
        by (simp add: min.assoc min.commute min.left_commute)
    qed
    with Some step Cons.IH [of "magnitude_step fl nrm e a"] show ?thesis
      by simp
  qed
qed

lemma fold_magnitude_max:
  "acc_max (fold (magnitude_step fl nrm) es a) = Max (insert (acc_max a) (set (map nrm es)))"
proof (induction es arbitrary: a)
  case Nil
  then show ?case by simp
next
  case (Cons e es)
  have step: "acc_max (magnitude_step fl nrm e a) = max (nrm e) (acc_max a)"
    by (simp add: magnitude_step_def Let_def max_def)
  have "Max (insert (max (nrm e) (acc_max a)) (set (map nrm es)))
          = Max (insert (acc_max a) (insert (nrm e) (set (map nrm es))))"
  proof (cases "es = []")
    case True
    then show ?thesis by (simp add: max.commute)
  next
    case False
    then show ?thesis
      by (simp add: max.assoc max.commute max.left_commute)
  qed
  with step Cons.IH [of "magnitude_step fl nrm e a"] show ?case
    by simp
qed

lemma magnitude_stats_result:
  assumes "magnitude_stats fl nrm embeddings = Inr (avg, min_e, max_e)"
  shows "embeddings \<noteq> [] \<and>
         avg = fl (running_sum fl (map nrm embeddings) / real (length embeddings)) \<and>
         min_e = Min (set (map nrm embeddings)) \<and>
         max_e = Max (insert 0 (set (map nrm embeddings)))"
proof -
  from assms have ne: "embeddings \<noteq> []"
    by (auto simp: magnitude_stats_def split: if_splits)
  with assms show ?thesis
    by (simp add: magnitude_stats_def Let_def fold_magnitude_avg fold_magnitude_num
        fold_magnitude_min fold_magnitude_max running_sum_def)
qed

lemma foldl_plus_sum_list: "foldl (\<lambda>s x. s + x) a xs = a + sum_list xs"
  for a :: real
  by (induction xs arbitrary: a) simp_all

lemma running_sum_exact: "running_sum (\<lambda>x. x) xs = sum_list xs"
  by (simp add: running_sum_def foldl_plus_sum_list)

lemma max_with_zero:
  assumes "embeddings \<noteq> []"
  shows "Max (insert 0 (set (map norm2 embeddings))) = Max (set (map norm2 embeddings))"
proof -
  from assms have fin: "finite (set (map norm2 embeddings))"
    and ne': "set (map norm2 embeddings) \<noteq> {}"
    by simp_all
  from assms obtain e where "e \<in> set embeddings"
    by (cases embeddings) auto
  then have "norm2 e \<in> set (map norm2 embeddings)"
    by simp
  then have "norm2 e \<le> Max (set (map norm2 embeddings))"
    using fin by (rule_tac Max_ge)
  with norm2_nonneg [of e] have "0 \<le> Max (set (map norm2 embeddings))"
    by linarith
  then show ?thesis
    using fin ne' by (simp add: max_def)
qed

lemma sum_list_lower: "(\<forall>x\<in>set xs. m \<le> x) \<Longrightarrow> m * real (length xs) \<le> sum_list xs"
  for m :: real
  by (induction xs) (auto simp: algebra_simps)

lemma sum_list_upper: "(\<forall>x\<in>set xs. x \<le> m) \<Longrightarrow> sum_list xs \<le> m * real (length xs)"
  for m :: real
  by (induction xs) (auto simp: algebra_simps)

lemma mean_between:
  fixes xs :: "real list"
  assumes "xs \<noteq> []"
  shows "Min (set xs) \<le> sum_list xs / real (length xs) \<and>
         sum_list xs / real (length xs) \<le> Max (set xs)"
proof -
  from assms have pos: "0 < real (length xs)" by simp
  have "Min (set xs) * real (length xs) \<le> sum_list xs"
    by (rule sum_list_lower) simp
  moreover have "sum_list xs \<le> Max (set xs) * real (length xs)"
    by (rule sum_list_upper) simp
  ultimately show ?thesis
    using pos by (simp add: pos_le_divide_eq pos_divide_le_eq)
qed

lemma magnitude_stats_exact:
  assumes "magnitude_stats (\<lambda>x. x) norm2 embeddings = Inr (avg, min_e, max_e)"
  shows "avg = sum_list (map norm2 embeddings) / real (length embeddings) \<and>
         min_e = Min (set (map norm2 embeddings)) \<and>
         max_e = Max (set (map norm2 embeddings)) \<and>
         0 \<le> half_range (\<lambda>x. x) avg min_e max_e"
proof -
  from magnitude_stats_result [OF assms]
  have ne: "embeddings \<noteq> []"
    and avg: "avg = sum_list (map norm2 embeddings) / real (length embeddings)"
    and mn: "min_e = Min (set (map norm2 embeddings))"
    and mx0: "max_e = Max (insert 0 (set (map norm2 embeddings)))"
    by (simp_all add: running_sum_exact)
  from mx0 max_with_zero [OF ne] have mx: "max_e = Max (set (map norm2 embeddings))"
    by (simp only:)
  from ne have "map norm2 embeddings \<noteq> []"
    by simp
  from mean_between [OF this] avg mn mx have "min_e \<le> avg" "avg \<le> max_e"
    by simp_all
  then have "0 \<le> half_range (\<lambda>x. x) avg min_e max_e"
    by (simp add: half_range_def)
  with avg mn mx show ?thesis
    by simp
qed

lemma half_range_exact:
  "half_range (\<lambda>x. x) avg min_e max_e = min (avg - min_e) (max_e - avg) / 2"
  by (simp add: half_range_def)

text \<open>
  C9. The statistics returned are the mean of the norms as the loop computes it (the
  rounded quotient of the rounded running sum), the least norm and the greatest norm (or
  0); in exact arithmetic they are the mean, the least and the greatest norm, and the
  scale, half the smaller of \<open>avg - min_e\<close> and \<open>max_e - avg\<close>, is not negative. Every
  synthetic vector produced comes from a call of the sampler with location \<open>avg\<close> and
  that scale: the calls before it all returned negative numbers and were redrawn, the
  accepted number is not negative, and the vector is the coordinate vector rescaled by
  it; in exact arithmetic, for a coordinate vector that is not all zeros, the norm of the
  vector is the accepted number, hence not negative. A vector is produced whenever the
  scale is not negative and some call returns a non-negative number; while all calls
  return negative numbers the loop goes on; and when rounding makes the scale negative
  the first call raises ValueError and no vector is produced.
\<close>

theorem fake_vector_magnitude:
  "(magnitude_stats fl nrm embeddings = Inr (avg, min_e, max_e) \<longrightarrow>
      embeddings \<noteq> [] \<and>
      avg = fl (running_sum fl (map nrm embeddings) / real (length embeddings)) \<and>
      min_e = Min (set (map nrm embeddings)) \<and>
      max_e = Max (insert 0 (set (map nrm embeddings)))) \<and>
   (magnitude_stats (\<lambda>x. x) norm2 embeddings = Inr (avg, min_e, max_e) \<longrightarrow>
      avg = sum_list (map norm2 embeddings) / real (length embeddings) \<and>
      min_e = Min (set (map norm2 embeddings)) \<and>
      max_e = Max (set (map norm2 embeddings)) \<and>
      0 \<le> half_range (\<lambda>x. x) avg min_e max_e) \<and>
   half_range (\<lambda>x. x) avg min_e max_e = min (avg - min_e) (max_e - avg) / 2 \<and>
   (fake_vector fl nrm sample avg min_e max_e l gs = Some (Inr (v, rest)) \<longrightarrow>
      0 \<le> half_range fl avg min_e max_e \<and>
      (\<exists>pre g. gs = pre @ g # rest \<and>
         (\<forall>h\<in>set pre. sample avg (half_range fl avg min_e max_e) h < 0) \<and>
         0 \<le> sample avg (half_range fl avg min_e max_e) g \<and>
         v = rescale fl nrm (sample avg (half_range fl avg min_e max_e) g) l)) \<and>
   (fake_vector (\<lambda>x. x) norm2 sample avg min_e max_e l gs = Some (Inr (v, rest)) \<and>
    norm2 l \<noteq> 0 \<longrightarrow>
      (\<exists>pre g new_l. gs = pre @ g # rest \<and> v = Some new_l \<and>
         new_l = map (\<lambda>x. sample avg (min (avg - min_e) (max_e - avg) / 2) g * x / norm2 l) l \<and>
         norm2 new_l = sample avg (min (avg - min_e) (max_e - avg) / 2) g \<and>
         0 \<le> norm2 new_l)) \<and>
   (0 \<le> half_range fl avg min_e max_e \<and>
    (\<exists>g\<in>set gs. 0 \<le> sample avg (half_range fl avg min_e max_e) g) \<longrightarrow>
      (\<exists>w left. fake_vector fl nrm sample avg min_e max_e l gs = Some (Inr (w, left)))) \<and>
   (half_range fl avg min_e max_e < 0 \<and> gs \<noteq> [] \<longrightarrow>
      fake_vector fl nrm sample avg min_e max_e l gs = Some (Inl ValueError)) \<and>
   (0 \<le> half_range fl avg min_e max_e \<and>
    (\<forall>g\<in>set gs. sample avg (half_range fl avg min_e max_e) g < 0) \<longrightarrow>
      fake_vector fl nrm sample avg min_e max_e l gs = None)"
proof -
  let ?sd = "half_range fl avg min_e max_e"
  have p1: "magnitude_stats fl nrm embeddings = Inr (avg, min_e, max_e) \<longrightarrow>
      embeddings \<noteq> [] \<and>
      avg = fl (running_sum fl (map nrm embeddings) / real (length embeddings)) \<and>
      min_e = Min (set (map nrm embeddings)) \<and>
      max_e = Max (insert 0 (set (map nrm embeddings)))"
    using magnitude_stats_result by blast
  have p2: "magnitude_stats (\<lambda>x. x) norm2 embeddings = Inr (avg, min_e, max_e) \<longrightarrow>
      avg = sum_list (map norm2 embeddings) / real (length embeddings) \<and>
      min_e = Min (set (map norm2 embeddings)) \<and>
      max_e = Max (set (map norm2 embeddings)) \<and>
      0 \<le> half_range (\<lambda>x. x) avg min_e max_e"
    using magnitude_stats_exact by blast
  have sound: "0 \<le> half_range f avg min_e max_e \<and>
      (\<exists>pre g. gs = pre @ g # rest \<and>
         (\<forall>h\<in>set pre. sample avg (half_range f avg min_e max_e) h < 0) \<and>
         0 \<le> sample avg (half_range f avg min_e max_e) g \<and>
         v = rescale f n (sample avg (half_range f avg min_e max_e) g) l)"
    if r: "fake_vector f n sample avg min_e max_e l gs = Some (Inr (v, rest))" for f n
  proof -
    from r obtain m where
      d: "draw_loop sample avg (half_range f avg min_e max_e) (- 1) gs = Some (Inr (m, rest))"
      and v: "v = rescale f n m l"
      by (auto simp: fake_vector_def draw_magnitude_def split: option.splits sum.splits)
    from draw_loop_result [OF d] v show ?thesis
      by auto
  qed
  have p3: "fake_vector fl nrm sample avg min_e max_e l gs = Some (Inr (v, rest)) \<longrightarrow>
      0 \<le> ?sd \<and>
      (\<exists>pre g. gs = pre @ g # rest \<and>
         (\<forall>h\<in>set pre. sample avg ?sd h < 0) \<and>
         0 \<le> sample avg ?sd g \<and>
         v = rescale fl nrm (sample avg ?sd g) l)"
    using sound [of fl nrm] by blast
  have p4: "fake_vector (\<lambda>x. x) norm2 sample avg min_e max_e l gs = Some (Inr (v, rest)) \<and>
    norm2 l \<noteq> 0 \<longrightarrow>
      (\<exists>pre g new_l. gs = pre @ g # rest \<and> v = Some new_l \<and>
         new_l = map (\<lambda>x. sample avg (min (avg - min_e) (max_e - avg) / 2) g * x / norm2 l) l \<and>
         norm2 new_l = sample avg (min (avg - min_e) (max_e - avg) / 2) g \<and>
         0 \<le> norm2 new_l)"
  proof
    assume h: "fake_vector (\<lambda>x. x) norm2 sample avg min_e max_e l gs = Some (Inr (v, rest)) \<and>
      norm2 l \<noteq> 0"
    then have nz: "norm2 l \<noteq> 0" ..
    from h sound [of "\<lambda>x. x" norm2] obtain pre g where
      g: "gs = pre @ g # rest" and
      acc: "0 \<le> sample avg (half_range (\<lambda>x. x) avg min_e max_e) g" and
      v: "v = rescale (\<lambda>x. x) norm2 (sample avg (half_range (\<lambda>x. x) avg min_e max_e) g) l"
      by blast
    from rescale_exact [OF nz acc] v g acc
    show "\<exists>pre g new_l. gs = pre @ g # rest \<and> v = Some new_l \<and>
         new_l = map (\<lambda>x. sample avg (min (avg - min_e) (max_e - avg) / 2) g * x / norm2 l) l \<and>
         norm2 new_l = sample avg (min (avg - min_e) (max_e - avg) / 2) g \<and>
         0 \<le> norm2 new_l"
      unfolding half_range_exact by auto
  qed
  have p5: "0 \<le> ?sd \<and> (\<exists>g\<in>set gs. 0 \<le> sample avg ?sd g) \<longrightarrow>
      (\<exists>w left. fake_vector fl nrm sample avg min_e max_e l gs = Some (Inr (w, left)))"
  proof
    assume h: "0 \<le> ?sd \<and> (\<exists>g\<in>set gs. 0 \<le> sample avg ?sd g)"
    then have sd: "0 \<le> ?sd" ..
    from h obtain pre g left where
      split: "gs = pre @ g # left" and acc: "0 \<le> sample avg ?sd g" and
      rej: "\<forall>h\<in>set pre. \<not> 0 \<le> sample avg ?sd h"
      using split_list_first_prop [of gs "\<lambda>g. 0 \<le> sample avg ?sd g"] by blast
    from rej have rej': "\<forall>h\<in>set pre. sample avg ?sd h < 0"
      by (simp add: not_le)
    have "draw_loop sample avg ?sd (- 1) (pre @ g # left) = Some (Inr (sample avg ?sd g, left))"
      using sd _ rej' acc by (rule draw_loop_accepts) simp
    then show "\<exists>w left. fake_vector fl nrm sample avg min_e max_e l gs = Some (Inr (w, left))"
      by (simp add: fake_vector_def draw_magnitude_def split)
  qed
  have p6: "?sd < 0 \<and> gs \<noteq> [] \<longrightarrow>
      fake_vector fl nrm sample avg min_e max_e l gs = Some (Inl ValueError)"
    by (simp add: fake_vector_def draw_magnitude_def draw_loop_raises)
  have p7: "0 \<le> ?sd \<and> (\<forall>g\<in>set gs. sample avg ?sd g < 0) \<longrightarrow>
      fake_vector fl nrm sample avg min_e max_e l gs = None"
    by (simp add: fake_vector_def draw_magnitude_def draw_loop_rejects)
  from p1 p2 half_range_exact [of avg min_e max_e] p3 p4 p5 p6 p7 show ?thesis
    by (intro conjI)
qed

lemma norm2_6_8: "norm2 [6, 8] = 10"
proof -
  have "sqrt 100 = 10"
    by (rule real_sqrt_unique) simp_all
  then show ?thesis
    by (simp add: norm2_def)
qed

lemma example_stats: "magnitude_stats (\<lambda>x. x) norm2 [[3, 4], [6, 8]] = Inr (15 / 2, 5, 10)"
  by (simp add: magnitude_stats_def magnitude_step_def Let_def norm2_3_4 norm2_6_8)

lemma norm2_single: "0 \<le> x \<Longrightarrow> norm2 [x] = x"
  by (simp add: norm2_def)

lemma example_double_norm: "norm2 [example_double] = example_double"
proof -
  have "0 \<le> example_double"
    by (simp add: example_double_def)
  then show ?thesis
    by (rule norm2_single)
qed

lemma example_rounded_stats:
  "magnitude_stats example_rounding norm2 [[example_double], [example_double], [example_double]]
     = Inr (7205759403792795 / 2 ^ 56, example_double, example_double)"
  by (simp add: magnitude_stats_def magnitude_step_def Let_def example_double_norm)
     (simp add: example_rounding_def example_double_def)

lemma example_rounded_half_range:
  "half_range example_rounding (7205759403792795 / 2 ^ 56) example_double example_double
     = - 1 / 2 ^ 57"
  by (simp add: half_range_def example_rounding_def example_double_def)

theorem fake_vector_magnitude_witness:
  "magnitude_stats (\<lambda>x. x) norm2 [[3, 4], [6, 8]] = Inr (15 / 2, 5, 10) \<and>
   (15 / 2 :: real) = sum_list (map norm2 [[3, 4], [6, 8]]) / real (length [[3, 4], [6, 8 :: real]]) \<and>
   half_range (\<lambda>x. x) (15 / 2) 5 10 = 5 / 4 \<and>
   fake_vector (\<lambda>x. x) norm2 (\<lambda>loc scale z. loc + scale * z) (15 / 2) 5 10 [1, 0] [- 8, 2]
     = Some (Inr (Some [10, 0], [])) \<and>
   (\<exists>pre g new_l. [- 8, 2 :: real] = pre @ g # [] \<and> Some [10, 0] = Some new_l \<and>
      new_l = map (\<lambda>x. (15 / 2 + min (15 / 2 - 5) (10 - 15 / 2) / 2 * g) * x / norm2 [1, 0]) [1, 0] \<and>
      norm2 new_l = 15 / 2 + min (15 / 2 - 5) (10 - 15 / 2) / 2 * g \<and> 0 \<le> norm2 new_l) \<and>
   fake_vector (\<lambda>x. x) norm2 (\<lambda>loc scale z. loc + scale * z) (15 / 2) 5 10 [1, 0] [- 8 :: real]
     = None \<and>
   magnitude_stats example_rounding norm2 [[example_double], [example_double], [example_double]]
     = Inr (7205759403792795 / 2 ^ 56, example_double, example_double) \<and>
   example_double < 7205759403792795 / 2 ^ 56 \<and>
   half_range example_rounding (7205759403792795 / 2 ^ 56) example_double example_double
     = - 1 / 2 ^ 57 \<and>
   fake_vector example_rounding norm2 (\<lambda>loc scale z. loc + scale * z)
       (7205759403792795 / 2 ^ 56) example_double example_double [1, 0] [0 :: real]
     = Some (Inl ValueError)"
proof -
  let ?sample = "\<lambda>loc scale z. loc + scale * (z :: real)"
  let ?a = "7205759403792795 / 2 ^ 56 :: real"
  have nz: "norm2 [1, 0] \<noteq> 0"
    by (simp add: norm2_def)
  have hr: "half_range (\<lambda>x. x) (15 / 2) 5 10 = 5 / 4"
    by (simp add: half_range_def)
  note exact = fake_vector_magnitude
    [of "\<lambda>x. x" norm2 "[[3, 4], [6, 8]]" "15 / 2" 5 10 ?sample "[1, 0]" "[- 8, 2]"
      "Some [10, 0]" "[]"]
  have mean: "(15 / 2 :: real)
      = sum_list (map norm2 [[3, 4], [6, 8]]) / real (length [[3, 4], [6, 8 :: real]])"
    by (rule exact [THEN conjunct2, THEN conjunct1, THEN mp, OF example_stats, THEN conjunct1])
  have run: "fake_vector (\<lambda>x. x) norm2 ?sample (15 / 2) 5 10 [1, 0] [- 8, 2]
      = Some (Inr (Some [10, 0], []))"
    by (simp add: fake_vector_def draw_magnitude_def random_normal_def rescale_def norm2_def hr)
  have vec: "\<exists>pre g new_l. [- 8, 2 :: real] = pre @ g # [] \<and> Some [10, 0] = Some new_l \<and>
      new_l = map (\<lambda>x. (15 / 2 + min (15 / 2 - 5) (10 - 15 / 2) / 2 * g) * x / norm2 [1, 0]) [1, 0] \<and>
      norm2 new_l = 15 / 2 + min (15 / 2 - 5) (10 - 15 / 2) / 2 * g \<and> 0 \<le> norm2 new_l"
    by (rule exact [THEN conjunct2, THEN conjunct2, THEN conjunct2, THEN conjunct2,
          THEN conjunct1, THEN mp, OF conjI, OF run nz])
  have rej: "0 \<le> half_range (\<lambda>x. x) (15 / 2) 5 10 \<and>
      (\<forall>g\<in>set [- 8 :: real]. ?sample (15 / 2) (half_range (\<lambda>x. x) (15 / 2) 5 10) g < 0)"
    by (simp add: hr)
  have still: "fake_vector (\<lambda>x. x) norm2 ?sample (15 / 2) 5 10 [1, 0] [- 8 :: real] = None"
    by (rule fake_vector_magnitude
        [of "\<lambda>x. x" norm2 "[[3, 4], [6, 8]]" "15 / 2" 5 10 ?sample "[1, 0]" "[- 8]",
          THEN conjunct2, THEN conjunct2, THEN conjunct2, THEN conjunct2, THEN conjunct2,
          THEN conjunct2, THEN conjunct2, THEN mp, OF rej])
  have above: "example_double < ?a"
    by (simp add: example_double_def)
  have neg: "half_range example_rounding ?a example_double example_double < 0 \<and>
      [0 :: real] \<noteq> []"
    unfolding example_rounded_half_range by simp
  have raises: "fake_vector example_rounding norm2 ?sample ?a example_double example_double
      [1, 0] [0 :: real] = Some (Inl ValueError)"
    by (rule fake_vector_magnitude
        [of example_rounding norm2 "[[example_double], [example_double], [example_double]]"
          ?a example_double example_double ?sample "[1, 0]" "[0]",
          THEN conjunct2, THEN conjunct2, THEN conjunct2, THEN conjunct2, THEN conjunct2,
          THEN conjunct2, THEN conjunct1, THEN mp, OF neg])
  from example_stats mean hr run vec still example_rounded_stats above
    example_rounded_half_range raises
  show ?thesis
    by (intro conjI)
qed

end
